theory Spec2Isabelle
  imports Complex_Main "HOL-Library.Multiset" "HOL-Library.Sublist"
begin

section \<open>The application stack of code-refactoring-infra (stack/app\_stack.go)\<close>

text \<open>
  The Go program builds one stack by a fixed sequence of calls into the provider SDK.
  The embedding keeps that shape: the stack is the list of SDK calls made on it so far,
  in call order; every builder function of the source takes the shared
  \<open>Resources\<close> context (which holds the stack) and returns its handle struct together
  with the updated context.

  \<^item> A handle is the construct id the source passes to the SDK (\<open>''RefactorVpc''\<close>).
  \<^item> A Go string that may hold provider tokens (an ARN, a DNS name, an id known only at
    deployment) is a \<open>tstring\<close>: a list of literal pieces and tokens
    \<open>Token h a\<close>, "attribute \<open>a\<close> of the resource behind handle \<open>h\<close>".
    \<open>fmt.Sprintf\<close> with \<open>%s\<close> is concatenation of pieces.
    Strings computed from the account id and the region alone are plain strings.
  \<^item> Record fields carry the Go field name behind a short prefix naming the struct,
    because field names are global in HOL.
\<close>

subsection \<open>Strings, tokens, enumerations\<close>

type_synonym handle = string

datatype piece = Lit string | Token handle string

type_synonym tstring = "piece list"

text \<open>What a token string becomes once the provider has resolved every attribute.\<close>

fun resolve_piece :: "(handle \<Rightarrow> string \<Rightarrow> string) \<Rightarrow> piece \<Rightarrow> string" where
  "resolve_piece \<rho> (Lit s) = s"
| "resolve_piece \<rho> (Token h a) = \<rho> h a"

definition resolve :: "(handle \<Rightarrow> string \<Rightarrow> string) \<Rightarrow> tstring \<Rightarrow> string" where
  "resolve \<rho> t = concat (map (resolve_piece \<rho>) t)"

fun piece_handles :: "piece \<Rightarrow> handle list" where
  "piece_handles (Lit s) = []"
| "piece_handles (Token h a) = [h]"

definition handles_of :: "tstring \<Rightarrow> handle list" where
  "handles_of t = concat (map piece_handles t)"

datatype RemovalPolicy = RemovalPolicy_DESTROY | RemovalPolicy_RETAIN | RemovalPolicy_SNAPSHOT

datatype SubnetType =
  SubnetType_PUBLIC | SubnetType_PRIVATE_WITH_EGRESS | SubnetType_PRIVATE_ISOLATED

datatype BlockPublicAccess = BlockPublicAccess_BLOCK_ALL | BlockPublicAccess_BLOCK_ACLS

datatype Duration =
  Duration_Seconds nat | Duration_Minutes nat | Duration_Hours nat | Duration_Days nat

fun toSeconds :: "Duration \<Rightarrow> nat" where
  "toSeconds (Duration_Seconds n) = n"
| "toSeconds (Duration_Minutes n) = 60 * n"
| "toSeconds (Duration_Hours n) = 3600 * n"
| "toSeconds (Duration_Days n) = 86400 * n"

datatype Effect = Effect_ALLOW | Effect_DENY

datatype AuthorizationType =
  AuthorizationType_NONE | AuthorizationType_IAM | AuthorizationType_CUSTOM
| AuthorizationType_COGNITO

datatype ApplicationProtocol = ApplicationProtocol_HTTP | ApplicationProtocol_HTTPS

datatype TargetType = TargetType_INSTANCE | TargetType_IP | TargetType_LAMBDA

datatype EndpointType = EndpointType_EDGE | EndpointType_REGIONAL | EndpointType_PRIVATE

datatype AccountRecovery =
  AccountRecovery_EMAIL_ONLY | AccountRecovery_PHONE_ONLY_WITHOUT_MFA | AccountRecovery_NONE

datatype OAuthScope = OAuthScope_EMAIL | OAuthScope_OPENID | OAuthScope_PROFILE | OAuthScope_PHONE

datatype ViewerProtocolPolicy =
  ViewerProtocolPolicy_ALLOW_ALL | ViewerProtocolPolicy_HTTPS_ONLY
| ViewerProtocolPolicy_REDIRECT_TO_HTTPS

datatype AllowedMethods = AllowedMethods_ALLOW_GET_HEAD | AllowedMethods_ALLOW_ALL

datatype CachedMethods = CachedMethods_CACHE_GET_HEAD | CachedMethods_CACHE_GET_HEAD_OPTIONS

datatype PriceClass = PriceClass_PRICE_CLASS_100 | PriceClass_PRICE_CLASS_200 | PriceClass_PRICE_CLASS_ALL

datatype ParameterTier = ParameterTier_STANDARD | ParameterTier_ADVANCED

subsection \<open>Constants and runtime of the package that are not in app\_stack.go\<close>

text \<open>
  \<open>DefaultResourceTagKey\<close>, \<open>DefaultResourceTagValue\<close>, \<open>RDSPostgresDatabaseName\<close> and
  \<open>FoundationModels\<close> are package constants declared in another file; the builders take
  them as a parameter. The Go runtime supplies what \<open>runtime.Caller(0)\<close> reports (no file
  when \<open>ok\<close> is false), the two \<open>path/filepath\<close> functions, and the order in which
  \<open>range\<close> walks the keys of the parameter map.
\<close>

record Constants =
  DefaultResourceTagKey :: string
  DefaultResourceTagValue :: string
  RDSPostgresDatabaseName :: string
  FoundationModels :: "string list"

record GoRuntime =
  Caller0 :: "string option"
  filepath_Dir :: "string \<Rightarrow> string"
  filepath_Join :: "string \<Rightarrow> string \<Rightarrow> string"
  rangeOrder :: "string list"

datatype error = Panic string

subsection \<open>Property structs of the SDK calls\<close>

record SubnetConfiguration =
  sn_CidrMask :: nat
  sn_Name :: string
  sn_SubnetType :: SubnetType

record VpcProps =
  vpc_MaxAzs :: nat
  vpc_NatGateways :: nat
  vpc_SubnetConfiguration :: "SubnetConfiguration list"

record BucketProps =
  bk_BucketName :: string
  bk_RemovalPolicy :: RemovalPolicy
  bk_AutoDeleteObjects :: bool
  bk_Versioned :: "bool option"
  bk_BlockPublicAccess :: BlockPublicAccess

record SecretStringGenerator =
  gen_SecretStringTemplate :: string
  gen_GenerateStringKey :: string
  gen_ExcludeCharacters :: string

record SecretProps =
  sec_SecretName :: string
  sec_Description :: "string option"
  sec_GenerateSecretString :: "SecretStringGenerator option"
  sec_SecretObjectValue :: "(string \<times> tstring) list"
  sec_RemovalPolicy :: RemovalPolicy

datatype DatabaseClusterEngine = DatabaseClusterEngine_AuroraPostgres string

datatype ClusterInstance = ClusterInstance_ServerlessV2 string bool

datatype Credentials = Credentials_FromSecret handle string

record DatabaseClusterProps =
  dbc_Engine :: DatabaseClusterEngine
  dbc_Writer :: ClusterInstance
  dbc_Vpc :: handle
  dbc_VpcSubnets :: SubnetType
  dbc_DefaultDatabaseName :: string
  dbc_Port :: nat
  dbc_Credentials :: Credentials
  dbc_RemovalPolicy :: RemovalPolicy
  dbc_ClusterIdentifier :: string
  dbc_EnableDataApi :: bool
  dbc_ServerlessV2MinCapacity :: real
  dbc_ServerlessV2MaxCapacity :: real

record SecurityGroupProps =
  sg_Vpc :: handle
  sg_Description :: string
  sg_AllowAllOutbound :: bool

record PolicyStatementProps =
  ps_Sid :: "string option"
  ps_Effect :: "Effect option"
  ps_Actions :: "string list"
  ps_Resources :: "tstring list"

datatype Principal =
  ServicePrincipal string
| WebIdentityPrincipal string "(string \<times> (string \<times> string list) list) list"

record RoleProps =
  role_RoleName :: "string option"
  role_AssumedBy :: Principal
  role_InlinePolicies :: "(string \<times> PolicyStatementProps list) list"

record BundlingOptions =
  bun_Image :: string
  bun_Command :: "string list"
  bun_User :: string

datatype AssetCode = AssetCode_FromAsset string BundlingOptions

record FunctionProps =
  fn_Handler :: string
  fn_Runtime :: string
  fn_Code :: AssetCode
  fn_Vpc :: handle
  fn_VpcSubnets :: SubnetType
  fn_SecurityGroups :: "handle list"
  fn_Environment :: "(string \<times> tstring) list"
  fn_Timeout :: Duration
  fn_Role :: handle
  fn_AllowPublicSubnet :: bool
  fn_ReservedConcurrentExecutions :: nat

record SignInAliases =
  sia_Email :: bool
  sia_Username :: bool

record AutoVerifiedAttrs =
  av_Email :: bool

record PasswordPolicy =
  pw_MinLength :: nat
  pw_RequireLowercase :: bool
  pw_RequireUppercase :: bool
  pw_RequireDigits :: bool
  pw_RequireSymbols :: bool

record UserPoolProps =
  up_UserPoolName :: string
  up_SelfSignUpEnabled :: bool
  up_SignInAliases :: SignInAliases
  up_AutoVerify :: AutoVerifiedAttrs
  up_PasswordPolicy :: PasswordPolicy
  up_AccountRecovery :: AccountRecovery

record AuthFlow =
  af_UserPassword :: bool
  af_UserSrp :: bool

record OAuthFlows =
  of_AuthorizationCodeGrant :: bool
  of_ImplicitCodeGrant :: bool

record OAuthSettings =
  oa_Flows :: OAuthFlows
  oa_Scopes :: "OAuthScope list"
  oa_CallbackUrls :: "string list"
  oa_LogoutUrls :: "string list"

record UserPoolClientProps =
  upc_UserPool :: handle
  upc_UserPoolClientName :: string
  upc_GenerateSecret :: bool
  upc_AuthFlows :: AuthFlow
  upc_OAuth :: OAuthSettings
  upc_IdTokenValidity :: Duration
  upc_AccessTokenValidity :: Duration
  upc_RefreshTokenValidity :: Duration

record CognitoDomainOptions =
  cdo_DomainPrefix :: string

record UserPoolDomainProps =
  upd_UserPool :: handle
  upd_CognitoDomain :: CognitoDomainOptions

record ClusterProps =
  ecs_Vpc :: handle

record LogGroupProps =
  lg_LogGroupName :: string
  lg_RemovalPolicy :: RemovalPolicy

record FargateTaskDefinitionProps =
  td_Cpu :: nat
  td_MemoryLimitMiB :: nat
  td_TaskRole :: handle

record RepositoryProps =
  ecr_RepositoryName :: string
  ecr_RemovalPolicy :: RemovalPolicy
  ecr_EmptyOnDelete :: bool

datatype ContainerImage = ContainerImage_FromEcrRepository handle string

record AwsLogDriverProps =
  ald_StreamPrefix :: string
  ald_LogGroup :: handle

record ContainerDefinitionOptions =
  cd_Image :: ContainerImage
  cd_Logging :: AwsLogDriverProps
  cd_Environment :: "(string \<times> tstring) list"

record PortMapping =
  pm_ContainerPort :: nat

record ApplicationLoadBalancerProps =
  alb_Vpc :: handle
  alb_InternetFacing :: bool
  alb_VpcSubnets :: SubnetType

record HealthCheck =
  hc_Path :: string
  hc_HealthyHttpCodes :: string
  hc_HealthyThresholdCount :: nat
  hc_UnhealthyThresholdCount :: nat
  hc_Timeout :: Duration
  hc_Interval :: Duration

record ApplicationTargetGroupProps =
  tg_Port :: nat
  tg_Protocol :: ApplicationProtocol
  tg_Vpc :: handle
  tg_TargetType :: TargetType
  tg_HealthCheck :: HealthCheck

record FargateServiceProps =
  svc_Cluster :: handle
  svc_TaskDefinition :: handle
  svc_DesiredCount :: nat
  svc_VpcSubnets :: SubnetType
  svc_AssignPublicIp :: bool
  svc_SecurityGroups :: "handle list"

record BaseApplicationListenerProps =
  lis_Port :: nat
  lis_Protocol :: ApplicationProtocol
  lis_DefaultTargetGroups :: "handle list"

record CorsOptions =
  cors_AllowOrigins :: "string list"
  cors_AllowMethods :: "string list"
  cors_AllowHeaders :: "string list"

record RestApiProps =
  api_RestApiName :: string
  api_Description :: string
  api_EndpointTypes :: "EndpointType list"
  api_DefaultCorsPreflightOptions :: CorsOptions

record CognitoUserPoolsAuthorizerProps =
  auth_CognitoUserPools :: "handle list"
  auth_AuthorizerName :: string

record HttpIntegration =
  hi_Url :: tstring
  hi_Proxy :: bool

record MethodOptions =
  mo_Authorizer :: "handle option"
  mo_AuthorizationType :: AuthorizationType

record ProxyResourceOptions =
  pro_DefaultIntegration :: HttpIntegration
  pro_DefaultMethodOptions :: MethodOptions
  pro_AnyMethod :: bool

text \<open>
  A resource of the REST API: the root of an API (\<open>api.Root()\<close>) or the child that
  \<open>AddResource\<close> returns for a path part.
\<close>

datatype ApiResource = Root handle | Child ApiResource string

record OriginAccessIdentityProps =
  oai_Comment :: string

datatype Origin = S3Origin handle handle

record BehaviorOptions =
  bh_Origin :: Origin
  bh_ViewerProtocolPolicy :: ViewerProtocolPolicy
  bh_AllowedMethods :: AllowedMethods
  bh_CachedMethods :: CachedMethods
  bh_Compress :: bool

record ErrorResponse =
  er_HttpStatus :: nat
  er_ResponseHttpStatus :: nat
  er_ResponsePagePath :: string
  er_Ttl :: Duration

record DistributionProps =
  dist_DefaultBehavior :: BehaviorOptions
  dist_DefaultRootObject :: string
  dist_ErrorResponses :: "ErrorResponse list"
  dist_Comment :: string
  dist_EnableIpv6 :: bool
  dist_PriceClass :: PriceClass

record StringParameterProps =
  ssm_ParameterName :: string
  ssm_StringValue :: tstring
  ssm_Description :: string
  ssm_Tier :: ParameterTier

record CfnOutputProps =
  out_Value :: tstring
  out_Description :: string
  out_ExportName :: string

text \<open>Who receives a grant: a role, or the principal of an origin-access identity.\<close>

datatype Grantee = RoleGrantee handle | GrantPrincipal handle

subsection \<open>The stack: the SDK calls made on it, in call order\<close>

text \<open>
  One constructor per SDK function the source calls on the stack or on a handle of it.
  The first handle of a \<open>New...\<close> call is the construct id it declares;
  \<open>AddContainer\<close> and \<open>AddListener\<close> declare their second handle under the first.
\<close>

datatype call =
    NewVpc handle VpcProps
  | NewBucket handle BucketProps
  | NewSecret handle SecretProps
  | NewDatabaseCluster handle DatabaseClusterProps
  | NewSecurityGroup handle SecurityGroupProps
  | Connections_AllowFrom handle handle nat string
  | NewRole handle RoleProps
  | AddManagedPolicy handle string
  | Secret_GrantRead handle Grantee
  | AddToPolicy handle PolicyStatementProps
  | NewFunction handle FunctionProps
  | NewUserPool handle UserPoolProps
  | NewUserPoolClient handle UserPoolClientProps
  | NewUserPoolDomain handle UserPoolDomainProps
  | NewCluster handle ClusterProps
  | NewLogGroup handle LogGroupProps
  | NewFargateTaskDefinition handle FargateTaskDefinitionProps
  | NewRepository handle RepositoryProps
  | AddContainer handle handle ContainerDefinitionOptions
  | AddPortMappings handle PortMapping
  | NewApplicationLoadBalancer handle ApplicationLoadBalancerProps
  | NewApplicationTargetGroup handle ApplicationTargetGroupProps
  | NewFargateService handle FargateServiceProps
  | AttachToApplicationTargetGroup handle handle
  | AddListener handle handle BaseApplicationListenerProps
  | NewRestApi handle RestApiProps
  | NewCognitoUserPoolsAuthorizer handle CognitoUserPoolsAuthorizerProps
  | AddProxy ApiResource ProxyResourceOptions
  | AddResource ApiResource string
  | AddMethod ApiResource string HttpIntegration MethodOptions
  | NewOriginAccessIdentity handle OriginAccessIdentityProps
  | Bucket_GrantRead handle Grantee string
  | NewDistribution handle DistributionProps
  | NewStringParameter handle StringParameterProps
  | NewCfnOutput handle CfnOutputProps
  | Tags_Of_Add handle string string
  | ApplyRemovalPolicy handle RemovalPolicy

subsection \<open>Handle structs of the source\<close>

record Resources =
  res_Stack :: "call list"
  res_Vpc :: "handle option"
  res_Account :: string
  res_Region :: string

record NetworkingResources =
  net_Vpc :: handle
  net_SecretsManagerEndpoint :: "handle option"

record DatabaseResources =
  db_Cluster :: handle
  db_CredentialsSecret :: handle
  db_MigrationLambda :: handle
  db_MigrationLambdaRole :: handle
  db_MigrationLambdaSG :: handle

record MigrationLambdaResources =
  ml_MigrationLambda :: handle
  ml_MigrationLambdaRole :: handle
  ml_MigrationLambdaSG :: handle

record BedrockResources =
  br_KnowledgeBaseRole :: handle
  br_AgentRole :: handle

record ComputeResources =
  cmp_Cluster :: handle
  cmp_TaskDef :: handle
  cmp_Service :: "handle option"
  cmp_EcrRepo :: handle
  cmp_LogGroup :: handle

record StorageResources =
  sto_Bucket :: handle
  sto_Name :: string

record APIGatewayResources =
  gw_RestAPI :: handle
  gw_LoadBalancer :: handle
  gw_URL :: tstring

record CognitoResources =
  cog_UserPool :: handle
  cog_UserPoolClient :: handle
  cog_UserPoolDomain :: handle
  cog_UserPoolID :: tstring
  cog_ClientID :: tstring
  cog_DomainURL :: tstring

record FrontendResources =
  fe_Bucket :: handle
  fe_BucketName :: string
  fe_CloudFrontDistribution :: handle
  fe_DistributionID :: tstring
  fe_DistributionDomainName :: tstring

record StackProps =
  sp_Account :: string
  sp_Region :: string

record AppStack =
  as_Stack :: "call list"
  as_BedrockKnowledgeBaseRole :: tstring
  as_BedrockAgentRole :: tstring
  as_GitHubActionsRoleARN :: tstring
  as_BucketName :: string
  as_Region :: string
  as_Account :: string
  as_RDSPostgresClusterARN :: tstring
  as_RDSPostgresCredentialsSecretARN :: tstring
  as_RDSPostgresSchemaEnsureLambdaARN :: tstring
  as_APIGatewayURL :: tstring
  as_CognitoUserPoolID :: tstring
  as_CognitoUserPoolClientID :: tstring
  as_CognitoHostedUIURL :: tstring
  as_FrontendBucketName :: string
  as_CloudFrontDistributionID :: tstring
  as_CloudFrontDistributionDomainName :: tstring

subsection \<open>The builders\<close>

text \<open>An SDK call on the shared stack appends to it.\<close>

definition sdk :: "call \<Rightarrow> Resources \<Rightarrow> Resources" where
  "sdk c resources = resources\<lparr>res_Stack := res_Stack resources @ [c]\<rparr>"

text \<open>\<open>awscdk.Tags_Of(x).Add(DefaultResourceTagKey, DefaultResourceTagValue, nil)\<close>\<close>

definition tag :: "Constants \<Rightarrow> handle \<Rightarrow> Resources \<Rightarrow> Resources" where
  "tag k h = sdk (Tags_Of_Add h (DefaultResourceTagKey k) (DefaultResourceTagValue k))"

definition createNetworkingResources ::
  "Constants \<Rightarrow> Resources \<Rightarrow> NetworkingResources \<times> Resources" where
  "createNetworkingResources k resources =
    (let vpc = ''RefactorVpc'';
         r1 = sdk (NewVpc vpc
                \<lparr>vpc_MaxAzs = 2, vpc_NatGateways = 0,
                 vpc_SubnetConfiguration =
                   [\<lparr>sn_CidrMask = 24, sn_Name = ''Public'',
                     sn_SubnetType = SubnetType_PUBLIC\<rparr>]\<rparr>) resources;
         r2 = tag k vpc r1;
         r3 = sdk (ApplyRemovalPolicy vpc RemovalPolicy_DESTROY) r2
     in (\<lparr>net_Vpc = vpc, net_SecretsManagerEndpoint = None\<rparr>, r3))"

definition createStorageResources ::
  "Constants \<Rightarrow> Resources \<Rightarrow> StorageResources \<times> Resources" where
  "createStorageResources k resources =
    (let bucketName =
           ''code-refactor-bucket-'' @ res_Account resources @ ''-'' @ res_Region resources;
         bucket = ''CodeRefactorBucket'';
         r1 = sdk (NewBucket bucket
                \<lparr>bk_BucketName = bucketName,
                 bk_RemovalPolicy = RemovalPolicy_DESTROY,
                 bk_AutoDeleteObjects = True,
                 bk_Versioned = Some True,
                 bk_BlockPublicAccess = BlockPublicAccess_BLOCK_ALL\<rparr>) resources;
         r2 = tag k bucket r1
     in (\<lparr>sto_Bucket = bucket, sto_Name = bucketName\<rparr>, r2))"

definition createCognitoResources ::
  "Constants \<Rightarrow> Resources \<Rightarrow> CognitoResources \<times> Resources" where
  "createCognitoResources k resources =
    (let userPool = ''CodeRefactorUserPool'';
         r1 = sdk (NewUserPool userPool
                \<lparr>up_UserPoolName = ''code-refactor-user-pool'',
                 up_SelfSignUpEnabled = True,
                 up_SignInAliases = \<lparr>sia_Email = True, sia_Username = True\<rparr>,
                 up_AutoVerify = \<lparr>av_Email = True\<rparr>,
                 up_PasswordPolicy =
                   \<lparr>pw_MinLength = 8, pw_RequireLowercase = True,
                    pw_RequireUppercase = True, pw_RequireDigits = True,
                    pw_RequireSymbols = True\<rparr>,
                 up_AccountRecovery = AccountRecovery_EMAIL_ONLY\<rparr>) resources;
         r2 = tag k userPool r1;
         r3 = sdk (ApplyRemovalPolicy userPool RemovalPolicy_DESTROY) r2;
         userPoolClient = ''CodeRefactorUserPoolClient'';
         r4 = sdk (NewUserPoolClient userPoolClient
                \<lparr>upc_UserPool = userPool,
                 upc_UserPoolClientName = ''code-refactor-client'',
                 upc_GenerateSecret = False,
                 upc_AuthFlows = \<lparr>af_UserPassword = True, af_UserSrp = True\<rparr>,
                 upc_OAuth =
                   \<lparr>oa_Flows = \<lparr>of_AuthorizationCodeGrant = True,
                                of_ImplicitCodeGrant = True\<rparr>,
                    oa_Scopes = [OAuthScope_EMAIL, OAuthScope_OPENID, OAuthScope_PROFILE],
                    oa_CallbackUrls =
                      [''https://localhost:3000/callback'', ''https://example.com/callback''],
                    oa_LogoutUrls =
                      [''https://localhost:3000/logout'', ''https://example.com/logout'']\<rparr>,
                 upc_IdTokenValidity = Duration_Hours 24,
                 upc_AccessTokenValidity = Duration_Hours 24,
                 upc_RefreshTokenValidity = Duration_Days 30\<rparr>) r3;
         r5 = tag k userPoolClient r4;
         r6 = sdk (ApplyRemovalPolicy userPoolClient RemovalPolicy_DESTROY) r5;
         userPoolDomain = ''CodeRefactorUserPoolDomain'';
         r7 = sdk (NewUserPoolDomain userPoolDomain
                \<lparr>upd_UserPool = userPool,
                 upd_CognitoDomain =
                   \<lparr>cdo_DomainPrefix = ''code-refactor-'' @ res_Account resources\<rparr>\<rparr>) r6;
         r8 = tag k userPoolDomain r7;
         r9 = sdk (ApplyRemovalPolicy userPoolDomain RemovalPolicy_DESTROY) r8
     in (\<lparr>cog_UserPool = userPool,
          cog_UserPoolClient = userPoolClient,
          cog_UserPoolDomain = userPoolDomain,
          cog_UserPoolID = [Token userPool ''UserPoolId''],
          cog_ClientID = [Token userPoolClient ''UserPoolClientId''],
          cog_DomainURL = [Token userPoolDomain ''DomainName'']\<rparr>, r9))"

text \<open>
  \<open>getThisFileDir\<close>: the one place where the source itself panics.
\<close>

definition getThisFileDir :: "GoRuntime \<Rightarrow> error + string" where
  "getThisFileDir rt =
    (case Caller0 rt of
       None \<Rightarrow> Inl (Panic ''unable to get current file path'')
     | Some filename \<Rightarrow> Inr (filepath_Dir rt filename))"

definition setupMigrationLambdaPermissions ::
  "handle \<Rightarrow> handle \<Rightarrow> handle \<Rightarrow> Resources \<Rightarrow> Resources" where
  "setupMigrationLambdaPermissions role credentialsSecret cluster resources =
    (let r1 = sdk (AddManagedPolicy role ''service-role/AWSLambdaBasicExecutionRole'')
                resources;
         r2 = sdk (AddManagedPolicy role ''service-role/AWSLambdaVPCAccessExecutionRole'') r1;
         r3 = sdk (Secret_GrantRead credentialsSecret (RoleGrantee role)) r2;
         r4 = sdk (AddToPolicy role
                \<lparr>ps_Sid = None, ps_Effect = None,
                 ps_Actions =
                   [''rds-data:ExecuteStatement'',
                    ''rds-data:BatchExecuteStatement'',
                    ''rds-data:BeginTransaction'',
                    ''rds-data:CommitTransaction'',
                    ''rds-data:RollbackTransaction'',
                    ''rds-data:ExecuteSql'',
                    ''rds-data:DescribeTable''],
                 ps_Resources = [[Token cluster ''ClusterArn'']]\<rparr>) r3
     in r4)"

definition createMigrationLambda ::
  "Constants \<Rightarrow> GoRuntime \<Rightarrow> Resources \<Rightarrow> NetworkingResources \<Rightarrow> handle \<Rightarrow> handle
    \<Rightarrow> error + (MigrationLambdaResources \<times> Resources)" where
  "createMigrationLambda k rt resources networking cluster credentialsSecret =
    (let migrationLambdaSG = ''DbMigrationLambdaSG'';
         r1 = sdk (NewSecurityGroup migrationLambdaSG
                \<lparr>sg_Vpc = net_Vpc networking,
                 sg_Description =
                   ''Allow outbound connection to RDS Postgres for DB migrations'',
                 sg_AllowAllOutbound = True\<rparr>) resources;
         r2 = tag k migrationLambdaSG r1;
         r3 = sdk (Connections_AllowFrom cluster migrationLambdaSG 5432
                ''Allow DB migration lambda'') r2;
         migrationLambdaRole = ''DbMigrationLambdaRole'';
         r4 = sdk (NewRole migrationLambdaRole
                \<lparr>role_RoleName = None,
                 role_AssumedBy = ServicePrincipal ''lambda.amazonaws.com'',
                 role_InlinePolicies = []\<rparr>) r3;
         r5 = tag k migrationLambdaRole r4;
         r6 = sdk (ApplyRemovalPolicy migrationLambdaRole RemovalPolicy_DESTROY) r5;
         r7 = setupMigrationLambdaPermissions migrationLambdaRole credentialsSecret cluster r6
     in case getThisFileDir rt of
          Inl e \<Rightarrow> Inl e
        | Inr dir \<Rightarrow>
            (let lambdaPath = filepath_Join rt dir ''../rds_schema_lambda'';
                 migrationLambda = ''DbMigrationLambda'';
                 r8 = sdk (NewFunction migrationLambda
                        \<lparr>fn_Handler = ''handler.lambda_handler'',
                         fn_Runtime = ''PYTHON_3_12'',
                         fn_Code = AssetCode_FromAsset lambdaPath
                           \<lparr>bun_Image = ''PYTHON_3_12.BundlingImage'',
                            bun_Command =
                              [''bash'', ''-c'',
                               ''pip install -r requirements.txt -t /asset-output && cp -au . /asset-output''],
                            bun_User = ''root''\<rparr>,
                         fn_Vpc = net_Vpc networking,
                         fn_VpcSubnets = SubnetType_PUBLIC,
                         fn_SecurityGroups = [migrationLambdaSG],
                         fn_Environment =
                           [(''DB_SECRET_ARN'', [Token credentialsSecret ''SecretArn'']),
                            (''DB_NAME'', [Lit (RDSPostgresDatabaseName k)]),
                            (''DB_HOST'', [Token cluster ''ClusterEndpoint.Hostname'']),
                            (''DB_PORT'', [Lit ''5432'']),
                            (''EMBEDDING_DIMENSIONS'', [Lit ''1536'']),
                            (''AUTO_MIGRATE_SCHEMA'', [Lit ''true''])],
                         fn_Timeout = Duration_Seconds 10,
                         fn_Role = migrationLambdaRole,
                         fn_AllowPublicSubnet = True,
                         fn_ReservedConcurrentExecutions = 1\<rparr>) r7;
                 r9 = tag k migrationLambda r8;
                 r10 = sdk (ApplyRemovalPolicy migrationLambda RemovalPolicy_DESTROY) r9;
                 r11 = sdk (ApplyRemovalPolicy migrationLambdaSG RemovalPolicy_DESTROY) r10
             in Inr (\<lparr>ml_MigrationLambda = migrationLambda,
                       ml_MigrationLambdaRole = migrationLambdaRole,
                       ml_MigrationLambdaSG = migrationLambdaSG\<rparr>, r11)))"

text \<open>
  The three \<open>fmt.Printf\<close> lines of \<open>createDatabaseResources\<close> write to the console only
  and are left out.
\<close>

definition createDatabaseResources ::
  "Constants \<Rightarrow> GoRuntime \<Rightarrow> Resources \<Rightarrow> NetworkingResources
    \<Rightarrow> error + (DatabaseResources \<times> Resources)" where
  "createDatabaseResources k rt resources networking =
    (let credentialsSecret = ''CodeRefactorDbSecret'';
         r1 = sdk (NewSecret credentialsSecret
                \<lparr>sec_SecretName = ''code-refactor-db-secret'',
                 sec_Description = None,
                 sec_GenerateSecretString = Some
                   \<lparr>gen_SecretStringTemplate = ''{\"username\": \"postgres\"}'',
                    gen_GenerateStringKey = ''password'',
                    gen_ExcludeCharacters = ''\"@/'' @ [CHR 0x5C]\<rparr>,
                 sec_SecretObjectValue = [],
                 sec_RemovalPolicy = RemovalPolicy_DESTROY\<rparr>) resources;
         r2 = tag k credentialsSecret r1;
         cluster = RDSPostgresDatabaseName k;
         r3 = sdk (NewDatabaseCluster cluster
                \<lparr>dbc_Engine = DatabaseClusterEngine_AuroraPostgres ''VER_15_12'',
                 dbc_Writer = ClusterInstance_ServerlessV2 ''writer'' True,
                 dbc_Vpc = net_Vpc networking,
                 dbc_VpcSubnets = SubnetType_PUBLIC,
                 dbc_DefaultDatabaseName = RDSPostgresDatabaseName k,
                 dbc_Port = 5432,
                 dbc_Credentials = Credentials_FromSecret credentialsSecret ''postgres'',
                 dbc_RemovalPolicy = RemovalPolicy_DESTROY,
                 dbc_ClusterIdentifier = ''code-refactor-cluster'',
                 dbc_EnableDataApi = True,
                 dbc_ServerlessV2MinCapacity = 0.5,
                 dbc_ServerlessV2MaxCapacity = 4.0\<rparr>) r2;
         r4 = tag k cluster r3
     in case createMigrationLambda k rt r4 networking cluster credentialsSecret of
          Inl e \<Rightarrow> Inl e
        | Inr (migrationResources, r5) \<Rightarrow>
            Inr (\<lparr>db_Cluster = cluster,
                  db_CredentialsSecret = credentialsSecret,
                  db_MigrationLambda = ml_MigrationLambda migrationResources,
                  db_MigrationLambdaRole = ml_MigrationLambdaRole migrationResources,
                  db_MigrationLambdaSG = ml_MigrationLambdaSG migrationResources\<rparr>, r5))"

definition createBedrockKnowledgeBaseRole ::
  "Constants \<Rightarrow> Resources \<Rightarrow> StorageResources \<Rightarrow> DatabaseResources \<Rightarrow> handle \<times> Resources" where
  "createBedrockKnowledgeBaseRole k resources storage database =
    (let role = ''BedrockKnowledgeBaseRole'';
         r1 = sdk (NewRole role
                \<lparr>role_RoleName = None,
                 role_AssumedBy = ServicePrincipal ''bedrock.amazonaws.com'',
                 role_InlinePolicies =
                   [(''BedrockKbPolicy'',
                     [\<lparr>ps_Sid = None, ps_Effect = None,
                       ps_Actions = [''s3:GetObject'', ''s3:ListBucket''],
                       ps_Resources =
                         [[Token (sto_Bucket storage) ''BucketArn''],
                          [Token (sto_Bucket storage) ''BucketArn'', Lit ''/*'']]\<rparr>,
                      \<lparr>ps_Sid = None, ps_Effect = None,
                       ps_Actions = [''secretsmanager:GetSecretValue''],
                       ps_Resources =
                         [[Token (db_CredentialsSecret database) ''SecretArn'']]\<rparr>,
                      \<lparr>ps_Sid = None, ps_Effect = None,
                       ps_Actions =
                         [''rds-data:ExecuteStatement'',
                          ''rds-data:BatchExecuteStatement'',
                          ''rds-data:BeginTransaction'',
                          ''rds-data:CommitTransaction'',
                          ''rds-data:RollbackTransaction'',
                          ''rds-data:ExecuteSql'',
                          ''rds-data:DescribeTable''],
                       ps_Resources = [[Token (db_Cluster database) ''ClusterArn'']]\<rparr>,
                      \<lparr>ps_Sid = None, ps_Effect = None,
                       ps_Actions = [''rds:DescribeDBClusters'', ''rds:DescribeDBInstances''],
                       ps_Resources = [[Lit ''*'']]\<rparr>])]\<rparr>) resources;
         r2 = tag k role r1;
         r3 = sdk (ApplyRemovalPolicy role RemovalPolicy_DESTROY) r2
     in (role, r3))"

definition createBedrockAgentRole :: "Constants \<Rightarrow> Resources \<Rightarrow> handle \<times> Resources" where
  "createBedrockAgentRole k resources =
    (let foundationModelResources =
           map (\<lambda>model. [Lit (''arn:aws:bedrock:'' @ res_Region resources
                               @ ''::foundation-model/'' @ model)])
               (FoundationModels k);
         role = ''BedrockAgentRole'';
         r1 = sdk (NewRole role
                \<lparr>role_RoleName = None,
                 role_AssumedBy = ServicePrincipal ''bedrock.amazonaws.com'',
                 role_InlinePolicies =
                   [(''BedrockAgentPolicy'',
                     [\<lparr>ps_Sid = Some ''AgentModelInvocationPermissions'',
                       ps_Effect = Some Effect_ALLOW,
                       ps_Actions = [''bedrock:InvokeModel''],
                       ps_Resources = foundationModelResources\<rparr>,
                      \<lparr>ps_Sid = Some ''AgentKnowledgeBaseQuery'',
                       ps_Effect = Some Effect_ALLOW,
                       ps_Actions = [''bedrock:Retrieve'', ''bedrock:RetrieveAndGenerate''],
                       ps_Resources =
                         [[Lit (''arn:aws:bedrock:'' @ res_Region resources @ '':''
                                @ res_Account resources @ '':knowledge-base/*'')]]\<rparr>,
                      \<lparr>ps_Sid = Some ''AgentPromptManagementConsole'',
                       ps_Effect = Some Effect_ALLOW,
                       ps_Actions = [''bedrock:GetPrompt''],
                       ps_Resources =
                         [[Lit (''arn:aws:bedrock:'' @ res_Region resources @ '':''
                                @ res_Account resources @ '':prompt/*'')]]\<rparr>])]\<rparr>) resources;
         r2 = tag k role r1;
         r3 = sdk (ApplyRemovalPolicy role RemovalPolicy_DESTROY) r2
     in (role, r3))"

definition createBedrockResources ::
  "Constants \<Rightarrow> Resources \<Rightarrow> StorageResources \<Rightarrow> DatabaseResources
    \<Rightarrow> BedrockResources \<times> Resources" where
  "createBedrockResources k resources storage database =
    (let (knowledgeBaseRole, r1) = createBedrockKnowledgeBaseRole k resources storage database;
         (agentRole, r2) = createBedrockAgentRole k r1
     in (\<lparr>br_KnowledgeBaseRole = knowledgeBaseRole, br_AgentRole = agentRole\<rparr>, r2))"

definition createGitHubActionsRole ::
  "Constants \<Rightarrow> Resources \<Rightarrow> FrontendResources \<Rightarrow> handle \<times> Resources" where
  "createGitHubActionsRole k resources frontend =
    (let role = ''GitHubActionsRole'';
         r1 = sdk (NewRole role
                \<lparr>role_RoleName = Some ''CodeRefactor-GitHubActions-Role'',
                 role_AssumedBy = WebIdentityPrincipal
                   (''arn:aws:iam::'' @ res_Account resources
                      @ '':oidc-provider/token.actions.githubusercontent.com'')
                   [(''StringEquals'',
                     [(''token.actions.githubusercontent.com:aud'', [''sts.amazonaws.com''])]),
                    (''StringLike'',
                     [(''token.actions.githubusercontent.com:sub'',
                       [''repo:kazemisoroush/code-refactoring-tool:*'',
                        ''repo:kazemisoroush/code-refactoring-ui:*''])])],
                 role_InlinePolicies =
                   [(''ECRAccessPolicy'',
                     [\<lparr>ps_Sid = None, ps_Effect = None,
                       ps_Actions =
                         [''ecr:GetAuthorizationToken'',
                          ''ecr:BatchCheckLayerAvailability'',
                          ''ecr:GetDownloadUrlForLayer'',
                          ''ecr:BatchGetImage'',
                          ''ecr:PutImage'',
                          ''ecr:InitiateLayerUpload'',
                          ''ecr:UploadLayerPart'',
                          ''ecr:CompleteLayerUpload''],
                       ps_Resources = [[Lit ''*'']]\<rparr>]),
                    (''S3FrontendDeployPolicy'',
                     [\<lparr>ps_Sid = None, ps_Effect = None,
                       ps_Actions =
                         [''s3:GetObject'', ''s3:PutObject'', ''s3:DeleteObject'',
                          ''s3:ListBucket'', ''s3:GetBucketLocation''],
                       ps_Resources =
                         [[Token (fe_Bucket frontend) ''BucketArn''],
                          [Token (fe_Bucket frontend) ''BucketArn'', Lit ''/*'']]\<rparr>]),
                    (''CloudFrontInvalidationPolicy'',
                     [\<lparr>ps_Sid = None, ps_Effect = None,
                       ps_Actions =
                         [''cloudfront:CreateInvalidation'',
                          ''cloudfront:GetInvalidation'',
                          ''cloudfront:ListInvalidations''],
                       ps_Resources =
                         [Lit (''arn:aws:cloudfront::'' @ res_Account resources
                               @ '':distribution/'') # fe_DistributionID frontend]\<rparr>]),
                    (''ParameterStoreAccessPolicy'',
                     [\<lparr>ps_Sid = None, ps_Effect = None,
                       ps_Actions =
                         [''ssm:GetParameter'', ''ssm:GetParameters'',
                          ''ssm:GetParametersByPath''],
                       ps_Resources =
                         [[Lit (''arn:aws:ssm:'' @ res_Region resources @ '':''
                                @ res_Account resources @ '':parameter/code-refactor/*'')]]\<rparr>]),
                    (''SecretsManagerAccessPolicy'',
                     [\<lparr>ps_Sid = None, ps_Effect = None,
                       ps_Actions =
                         [''secretsmanager:GetSecretValue'', ''secretsmanager:DescribeSecret''],
                       ps_Resources =
                         [[Lit (''arn:aws:secretsmanager:'' @ res_Region resources @ '':''
                                @ res_Account resources @ '':secret:/code-refactor/*'')]]\<rparr>])]\<rparr>)
                resources;
         r2 = tag k role r1;
         r3 = sdk (ApplyRemovalPolicy role RemovalPolicy_DESTROY) r2
     in (role, r3))"

definition createComputeResources ::
  "Constants \<Rightarrow> Resources \<Rightarrow> NetworkingResources \<Rightarrow> DatabaseResources \<Rightarrow> StorageResources
    \<Rightarrow> CognitoResources \<Rightarrow> BedrockResources \<Rightarrow> ComputeResources \<times> Resources" where
  "createComputeResources k resources networking database storage cognito bedrock =
    (let cluster = ''RefactorCluster'';
         r1 = sdk (NewCluster cluster \<lparr>ecs_Vpc = net_Vpc networking\<rparr>) resources;
         r2 = tag k cluster r1;
         r3 = sdk (ApplyRemovalPolicy cluster RemovalPolicy_DESTROY) r2;
         logGroup = ''FargateLogGroup'';
         r4 = sdk (NewLogGroup logGroup
                \<lparr>lg_LogGroupName = ''/ecs/code-refactor'',
                 lg_RemovalPolicy = RemovalPolicy_DESTROY\<rparr>) r3;
         r5 = tag k logGroup r4;
         taskRole = ''RefactorTaskRole'';
         r6 = sdk (NewRole taskRole
                \<lparr>role_RoleName = None,
                 role_AssumedBy = ServicePrincipal ''ecs-tasks.amazonaws.com'',
                 role_InlinePolicies = []\<rparr>) r5;
         r7 = tag k taskRole r6;
         r8 = sdk (Secret_GrantRead (db_CredentialsSecret database) (RoleGrantee taskRole)) r7;
         r9 = sdk (AddToPolicy taskRole
                \<lparr>ps_Sid = None, ps_Effect = Some Effect_ALLOW,
                 ps_Actions =
                   [''cloudformation:DescribeStacks'',
                    ''cloudformation:DescribeStackResources'',
                    ''cloudformation:DescribeStackEvents''],
                 ps_Resources =
                   [[Lit (''arn:aws:cloudformation:'' @ res_Region resources @ '':''
                          @ res_Account resources @ '':stack/CodeRefactorInfra/*'')]]\<rparr>) r8;
         r10 = sdk (AddToPolicy taskRole
                \<lparr>ps_Sid = None, ps_Effect = Some Effect_ALLOW,
                 ps_Actions =
                   [''secretsmanager:GetSecretValue'', ''secretsmanager:DescribeSecret''],
                 ps_Resources = [[Lit ''*'']]\<rparr>) r9;
         r11 = sdk (AddToPolicy taskRole
                \<lparr>ps_Sid = None, ps_Effect = Some Effect_ALLOW,
                 ps_Actions =
                   [''ssm:GetParameter'', ''ssm:GetParameters'', ''ssm:GetParametersByPath''],
                 ps_Resources =
                   [[Lit (''arn:aws:ssm:'' @ res_Region resources @ '':''
                          @ res_Account resources @ '':parameter/code-refactor/*'')]]\<rparr>) r10;
         r12 = sdk (ApplyRemovalPolicy taskRole RemovalPolicy_DESTROY) r11;
         taskDef = ''RefactorTaskDef'';
         r13 = sdk (NewFargateTaskDefinition taskDef
                \<lparr>td_Cpu = 512, td_MemoryLimitMiB = 1024, td_TaskRole = taskRole\<rparr>) r12;
         r14 = tag k taskDef r13;
         r15 = sdk (ApplyRemovalPolicy taskDef RemovalPolicy_DESTROY) r14;
         ecrRepo = ''RefactorEcrRepo'';
         r16 = sdk (NewRepository ecrRepo
                \<lparr>ecr_RepositoryName = ''refactor-ecr-repo'',
                 ecr_RemovalPolicy = RemovalPolicy_DESTROY,
                 ecr_EmptyOnDelete = True\<rparr>) r15;
         r17 = tag k ecrRepo r16;
         container = ''RefactorContainer'';
         r18 = sdk (AddContainer taskDef container
                \<lparr>cd_Image = ContainerImage_FromEcrRepository ecrRepo ''latest'',
                 cd_Logging = \<lparr>ald_StreamPrefix = ''refactor'', ald_LogGroup = logGroup\<rparr>,
                 cd_Environment =
                   [(''GIT_TOKEN'', [Lit ''placeholder-token'']),
                    (''GIT_AUTHOR'', [Lit ''CodeRefactorBot'']),
                    (''GIT_EMAIL'', [Lit ''bot@code-refactor.example.com'']),
                    (''AI_DEFAULT_PROVIDER'', [Lit ''bedrock'']),
                    (''AI_LOCAL_ENABLED'', [Lit ''false'']),
                    (''AI_BEDROCK_RDS_POSTGRES_CREDENTIALS_SECRET_ARN'',
                       [Token (db_CredentialsSecret database) ''SecretArn'']),
                    (''AI_BEDROCK_RDS_POSTGRES_INSTANCE_ARN'',
                       [Token (db_Cluster database) ''ClusterArn'']),
                    (''AI_BEDROCK_RDS_POSTGRES_DATABASE_NAME'', [Lit (RDSPostgresDatabaseName k)]),
                    (''AI_BEDROCK_RDS_POSTGRES_SCHEMA_ENSURE_LAMBDA_ARN'',
                       [Token (db_MigrationLambda database) ''FunctionArn'']),
                    (''AI_BEDROCK_REGION'', [Lit (res_Region resources)]),
                    (''AI_BEDROCK_KNOWLEDGE_BASE_SERVICE_ROLE_ARN'',
                       [Token (br_KnowledgeBaseRole bedrock) ''RoleArn'']),
                    (''AI_BEDROCK_AGENT_SERVICE_ROLE_ARN'',
                       [Token (br_AgentRole bedrock) ''RoleArn'']),
                    (''AI_BEDROCK_S3_BUCKET_NAME'', [Lit (sto_Name storage)]),
                    (''COGNITO_USER_POOL_ID'', cog_UserPoolID cognito),
                    (''COGNITO_CLIENT_ID'', cog_ClientID cognito),
                    (''COGNITO_REGION'', [Lit (res_Region resources)]),
                    (''METRICS_NAMESPACE'', [Lit ''CodeRefactorTool/API'']),
                    (''METRICS_REGION'', [Lit (res_Region resources)]),
                    (''METRICS_SERVICE_NAME'', [Lit ''code-refactor-api'']),
                    (''METRICS_ENABLED'', [Lit ''true'']),
                    (''TIMEOUT_SECONDS'', [Lit ''180'']),
                    (''LOG_LEVEL'', [Lit ''info''])]\<rparr>) r17;
         r19 = sdk (AddPortMappings container \<lparr>pm_ContainerPort = 8080\<rparr>) r18
     in (\<lparr>cmp_Cluster = cluster,
          cmp_TaskDef = taskDef,
          cmp_Service = None,
          cmp_EcrRepo = ecrRepo,
          cmp_LogGroup = logGroup\<rparr>, r19))"

text \<open>
  \<open>createAPIGatewayResources\<close> stores the service in the \<open>compute\<close> struct it was
  handed, so the model returns the updated struct as well. The type assertion
  \<open>compute.TaskDef.(awsecs.TaskDefinition)\<close> is on a value that
  \<open>NewFargateTaskDefinition\<close> made and cannot fail.
\<close>

definition createAPIGatewayResources ::
  "Constants \<Rightarrow> Resources \<Rightarrow> NetworkingResources \<Rightarrow> ComputeResources \<Rightarrow> CognitoResources
    \<Rightarrow> DatabaseResources \<Rightarrow> APIGatewayResources \<times> ComputeResources \<times> Resources" where
  "createAPIGatewayResources k resources networking compute cognito database =
    (let loadBalancer = ''CodeRefactorALB'';
         r1 = sdk (NewApplicationLoadBalancer loadBalancer
                \<lparr>alb_Vpc = net_Vpc networking,
                 alb_InternetFacing = True,
                 alb_VpcSubnets = SubnetType_PUBLIC\<rparr>) resources;
         r2 = tag k loadBalancer r1;
         r3 = sdk (ApplyRemovalPolicy loadBalancer RemovalPolicy_DESTROY) r2;
         targetGroup = ''CodeRefactorTargetGroup'';
         r4 = sdk (NewApplicationTargetGroup targetGroup
                \<lparr>tg_Port = 8080,
                 tg_Protocol = ApplicationProtocol_HTTP,
                 tg_Vpc = net_Vpc networking,
                 tg_TargetType = TargetType_IP,
                 tg_HealthCheck =
                   \<lparr>hc_Path = ''/health'',
                    hc_HealthyHttpCodes = ''200'',
                    hc_HealthyThresholdCount = 2,
                    hc_UnhealthyThresholdCount = 3,
                    hc_Timeout = Duration_Seconds 5,
                    hc_Interval = Duration_Seconds 30\<rparr>\<rparr>) r3;
         r5 = tag k targetGroup r4;
         ecsServiceSG = ''EcsServiceSG'';
         r6 = sdk (NewSecurityGroup ecsServiceSG
                \<lparr>sg_Vpc = net_Vpc networking,
                 sg_Description =
                   ''Allow outbound connections from ECS service to RDS and other AWS services'',
                 sg_AllowAllOutbound = True\<rparr>) r5;
         r7 = tag k ecsServiceSG r6;
         r8 = sdk (ApplyRemovalPolicy ecsServiceSG RemovalPolicy_DESTROY) r7;
         service = ''CodeRefactorService'';
         r9 = sdk (NewFargateService service
                \<lparr>svc_Cluster = cmp_Cluster compute,
                 svc_TaskDefinition = cmp_TaskDef compute,
                 svc_DesiredCount = 1,
                 svc_VpcSubnets = SubnetType_PUBLIC,
                 svc_AssignPublicIp = True,
                 svc_SecurityGroups = [ecsServiceSG]\<rparr>) r8;
         r10 = tag k service r9;
         r11 = sdk (ApplyRemovalPolicy service RemovalPolicy_DESTROY) r10;
         r12 = sdk (AttachToApplicationTargetGroup service targetGroup) r11;
         r13 = sdk (Connections_AllowFrom (db_Cluster database) ecsServiceSG 5432
                ''Allow ECS service to connect to RDS'') r12;
         compute' = compute\<lparr>cmp_Service := Some service\<rparr>;
         r14 = sdk (AddListener loadBalancer ''CodeRefactorListener''
                \<lparr>lis_Port = 80,
                 lis_Protocol = ApplicationProtocol_HTTP,
                 lis_DefaultTargetGroups = [targetGroup]\<rparr>) r13;
         api = ''CodeRefactorAPI'';
         r15 = sdk (NewRestApi api
                \<lparr>api_RestApiName = ''code-refactor-api'',
                 api_Description = ''API Gateway for Code Refactoring Tool'',
                 api_EndpointTypes = [EndpointType_REGIONAL],
                 api_DefaultCorsPreflightOptions =
                   \<lparr>cors_AllowOrigins = [''*''],
                    cors_AllowMethods = [''GET'', ''POST'', ''PUT'', ''DELETE'', ''OPTIONS''],
                    cors_AllowHeaders = [''Content-Type'', ''Authorization'']\<rparr>\<rparr>) r14;
         r16 = tag k api r15;
         r17 = sdk (ApplyRemovalPolicy api RemovalPolicy_DESTROY) r16;
         cognitoAuthorizer = ''CodeRefactorAuthorizer'';
         r18 = sdk (NewCognitoUserPoolsAuthorizer cognitoAuthorizer
                \<lparr>auth_CognitoUserPools = [cog_UserPool cognito],
                 auth_AuthorizerName = ''code-refactor-authorizer''\<rparr>) r17;
         albURL = [Lit ''http://'', Token loadBalancer ''LoadBalancerDnsName''];
         integration = \<lparr>hi_Url = albURL, hi_Proxy = True\<rparr>;
         r19 = sdk (AddProxy (Root api)
                \<lparr>pro_DefaultIntegration = integration,
                 pro_DefaultMethodOptions =
                   \<lparr>mo_Authorizer = Some cognitoAuthorizer,
                    mo_AuthorizationType = AuthorizationType_COGNITO\<rparr>,
                 pro_AnyMethod = True\<rparr>) r18;
         r20 = sdk (AddResource (Root api) ''health'') r19;
         healthResource = Child (Root api) ''health'';
         r21 = sdk (AddMethod healthResource ''GET'' integration
                \<lparr>mo_Authorizer = None,
                 mo_AuthorizationType = AuthorizationType_NONE\<rparr>) r20;
         r22 = sdk (AddResource (Root api) ''swagger'') r21;
         docsResource = Child (Root api) ''swagger'';
         r23 = sdk (AddMethod docsResource ''GET'' integration
                \<lparr>mo_Authorizer = None,
                 mo_AuthorizationType = AuthorizationType_NONE\<rparr>) r22;
         r24 = sdk (AddResource (Root api) ''auth'') r23;
         authResource = Child (Root api) ''auth'';
         r25 = sdk (AddMethod authResource ''GET'' integration
                \<lparr>mo_Authorizer = None,
                 mo_AuthorizationType = AuthorizationType_NONE\<rparr>) r24
     in (\<lparr>gw_RestAPI = api,
          gw_LoadBalancer = loadBalancer,
          gw_URL = [Token api ''Url'']\<rparr>, compute', r25))"

definition createFrontendResources ::
  "Constants \<Rightarrow> Resources \<Rightarrow> FrontendResources \<times> Resources" where
  "createFrontendResources k resources =
    (let frontendBucketName =
           ''code-refactor-frontend-'' @ res_Account resources @ ''-'' @ res_Region resources;
         frontendBucket = ''FrontendBucket'';
         r1 = sdk (NewBucket frontendBucket
                \<lparr>bk_BucketName = frontendBucketName,
                 bk_RemovalPolicy = RemovalPolicy_DESTROY,
                 bk_AutoDeleteObjects = True,
                 bk_Versioned = None,
                 bk_BlockPublicAccess = BlockPublicAccess_BLOCK_ALL\<rparr>) resources;
         r2 = tag k frontendBucket r1;
         originAccessIdentity = ''FrontendOAI'';
         r3 = sdk (NewOriginAccessIdentity originAccessIdentity
                \<lparr>oai_Comment = ''OAI for Code Refactor Frontend''\<rparr>) r2;
         r4 = sdk (Bucket_GrantRead frontendBucket (GrantPrincipal originAccessIdentity) ''*'') r3;
         distribution = ''FrontendDistribution'';
         r5 = sdk (NewDistribution distribution
                \<lparr>dist_DefaultBehavior =
                   \<lparr>bh_Origin = S3Origin frontendBucket originAccessIdentity,
                    bh_ViewerProtocolPolicy = ViewerProtocolPolicy_REDIRECT_TO_HTTPS,
                    bh_AllowedMethods = AllowedMethods_ALLOW_GET_HEAD,
                    bh_CachedMethods = CachedMethods_CACHE_GET_HEAD,
                    bh_Compress = True\<rparr>,
                 dist_DefaultRootObject = ''index.html'',
                 dist_ErrorResponses =
                   [\<lparr>er_HttpStatus = 404, er_ResponseHttpStatus = 200,
                     er_ResponsePagePath = ''/index.html'', er_Ttl = Duration_Minutes 5\<rparr>,
                    \<lparr>er_HttpStatus = 403, er_ResponseHttpStatus = 200,
                     er_ResponsePagePath = ''/index.html'', er_Ttl = Duration_Minutes 5\<rparr>],
                 dist_Comment = ''Code Refactor Frontend Distribution'',
                 dist_EnableIpv6 = True,
                 dist_PriceClass = PriceClass_PRICE_CLASS_100\<rparr>) r4;
         r6 = tag k distribution r5;
         r7 = sdk (ApplyRemovalPolicy frontendBucket RemovalPolicy_DESTROY) r6;
         r8 = sdk (ApplyRemovalPolicy distribution RemovalPolicy_DESTROY) r7;
         r9 = sdk (ApplyRemovalPolicy originAccessIdentity RemovalPolicy_DESTROY) r8
     in (\<lparr>fe_Bucket = frontendBucket,
          fe_BucketName = frontendBucketName,
          fe_CloudFrontDistribution = distribution,
          fe_DistributionID = [Token distribution ''DistributionId''],
          fe_DistributionDomainName = [Token distribution ''DistributionDomainName'']\<rparr>, r9))"

subsection \<open>The configuration publisher\<close>

text \<open>
  \<open>strings.TrimPrefix\<close> and \<open>strings.ReplaceAll\<close> of the Go standard library, on byte
  strings. With an empty \<open>old\<close>, \<open>ReplaceAll\<close> inserts \<open>new\<close> before every byte and at the
  end.
\<close>

definition strings_TrimPrefix :: "string \<Rightarrow> string \<Rightarrow> string" where
  "strings_TrimPrefix s p = (if take (length p) s = p then drop (length p) s else s)"

fun strings_ReplaceAll :: "string \<Rightarrow> string \<Rightarrow> string \<Rightarrow> string" where
  "strings_ReplaceAll s [] new = new @ concat (map (\<lambda>c. c # new) s)"
| "strings_ReplaceAll [] (c # old) new = []"
| "strings_ReplaceAll (x # s) (c # old) new =
     (if x = c \<and> take (length old) s = old
      then new @ strings_ReplaceAll (drop (length old) s) (c # old) new
      else x # strings_ReplaceAll s (c # old) new)"

text \<open>The three map literals of \<open>createNonSecretParameters\<close>, as key/value lists.\<close>

definition backendParams ::
  "Resources \<Rightarrow> StorageResources \<Rightarrow> DatabaseResources \<Rightarrow> CognitoResources
    \<Rightarrow> APIGatewayResources \<Rightarrow> ComputeResources \<Rightarrow> (string \<times> tstring) list" where
  "backendParams resources storage database cognito apigateway compute =
    [(''/code-refactor/backend/api-gateway-url'', gw_URL apigateway),
     (''/code-refactor/backend/cognito-user-pool-id'', cog_UserPoolID cognito),
     (''/code-refactor/backend/cognito-region'', [Lit (res_Region resources)]),
     (''/code-refactor/backend/s3-bucket-name'', [Lit (sto_Name storage)]),
     (''/code-refactor/backend/rds-cluster-arn'', [Token (db_Cluster database) ''ClusterArn'']),
     (''/code-refactor/backend/aws-region'', [Lit (res_Region resources)]),
     (''/code-refactor/backend/aws-account-id'', [Lit (res_Account resources)]),
     (''/code-refactor/backend/ecr-repository-uri'',
        [Token (cmp_EcrRepo compute) ''RepositoryUri'']),
     (''/code-refactor/backend/ecs-cluster-name'',
        [Token (cmp_Cluster compute) ''ClusterName'']),
     (''/code-refactor/backend/rds-postgres-schema-ensure-lambda-arn'',
        [Token (db_MigrationLambda database) ''FunctionArn''])]"

definition frontendParams ::
  "Resources \<Rightarrow> CognitoResources \<Rightarrow> APIGatewayResources \<Rightarrow> FrontendResources
    \<Rightarrow> (string \<times> tstring) list" where
  "frontendParams resources cognito apigateway frontend =
    [(''/code-refactor/frontend/api-base-url'', gw_URL apigateway),
     (''/code-refactor/frontend/cognito-user-pool-id'', cog_UserPoolID cognito),
     (''/code-refactor/frontend/cognito-hosted-ui-url'', cog_DomainURL cognito),
     (''/code-refactor/frontend/aws-region'', [Lit (res_Region resources)]),
     (''/code-refactor/frontend/cloudfront-domain'',
        Lit ''https://'' # fe_DistributionDomainName frontend)]"

definition deploymentParams ::
  "Resources \<Rightarrow> FrontendResources \<Rightarrow> ComputeResources \<Rightarrow> (string \<times> tstring) list" where
  "deploymentParams resources frontend compute =
    [(''/code-refactor/deployment/frontend-bucket'', [Lit (fe_BucketName frontend)]),
     (''/code-refactor/deployment/cloudfront-distribution-id'', fe_DistributionID frontend),
     (''/code-refactor/deployment/ecr-repository-uri'',
        [Token (cmp_EcrRepo compute) ''RepositoryUri'']),
     (''/code-refactor/deployment/aws-region'', [Lit (res_Region resources)])]"

text \<open>
  \<open>allParams\<close> after the three copying loops. Each loop assigns every entry of one map,
  whose keys are unique, so whatever order \<open>range\<close> takes, the loop is the map
  override \<open>++\<close>.
\<close>

definition allParams ::
  "Resources \<Rightarrow> StorageResources \<Rightarrow> DatabaseResources \<Rightarrow> CognitoResources
    \<Rightarrow> APIGatewayResources \<Rightarrow> FrontendResources \<Rightarrow> ComputeResources
    \<Rightarrow> (string \<rightharpoonup> tstring)" where
  "allParams resources storage database cognito apigateway frontend compute =
     Map.empty
     ++ map_of (backendParams resources storage database cognito apigateway compute)
     ++ map_of (frontendParams resources cognito apigateway frontend)
     ++ map_of (deploymentParams resources frontend compute)"

text \<open>The body of the last loop of \<open>createNonSecretParameters\<close>.\<close>

definition newParameter :: "Constants \<Rightarrow> string \<Rightarrow> tstring \<Rightarrow> Resources \<Rightarrow> Resources" where
  "newParameter k paramName paramValue resources =
    (let constructID =
           strings_ReplaceAll
             (strings_ReplaceAll (strings_TrimPrefix paramName ''/code-refactor/'') ''/'' '''')
             ''-'' '''';
         param = ''Param'' @ constructID;
         r1 = sdk (NewStringParameter param
                \<lparr>ssm_ParameterName = paramName,
                 ssm_StringValue = paramValue,
                 ssm_Description = ''Configuration parameter for '' @ paramName,
                 ssm_Tier = ParameterTier_STANDARD\<rparr>) resources
     in tag k param r1)"

text \<open>
  \<open>for paramName, paramValue := range allParams\<close>: Go visits every key of the map once,
  in an order of the runtime's choosing, here \<open>rangeOrder rt\<close>.
\<close>

definition goRange :: "('a \<rightharpoonup> 'b) \<Rightarrow> 'a list \<Rightarrow> bool" where
  "goRange m order = (distinct order \<and> set order = dom m)"

definition createNonSecretParameters ::
  "Constants \<Rightarrow> GoRuntime \<Rightarrow> Resources \<Rightarrow> StorageResources \<Rightarrow> DatabaseResources
    \<Rightarrow> CognitoResources \<Rightarrow> APIGatewayResources \<Rightarrow> FrontendResources \<Rightarrow> ComputeResources
    \<Rightarrow> Resources" where
  "createNonSecretParameters k rt resources storage database cognito apigateway frontend compute =
    foldl (\<lambda>r paramName.
             case allParams resources storage database cognito apigateway frontend compute
                    paramName of
               None \<Rightarrow> r
             | Some paramValue \<Rightarrow> newParameter k paramName paramValue r)
          resources (rangeOrder rt)"

text \<open>
  \<open>fmt.Sprintf("%v", m[key])\<close> on a \<open>map[string]interface{}\<close> of strings: the string
  stored under the key, or \<open><nil>\<close> for a key the map lacks.
\<close>

definition sprintf_v :: "(string \<times> tstring) list \<Rightarrow> string \<Rightarrow> tstring" where
  "sprintf_v m key = (case map_of m key of Some v \<Rightarrow> v | None \<Rightarrow> [Lit ''<nil>''])"

definition createSecretParameters ::
  "Constants \<Rightarrow> Resources \<Rightarrow> DatabaseResources \<Rightarrow> BedrockResources \<Rightarrow> CognitoResources
    \<Rightarrow> Resources" where
  "createSecretParameters k resources database bedrock cognito =
    (let backendSecrets =
           [(''rds_credentials_secret_arn'',
               [Token (db_CredentialsSecret database) ''SecretArn'']),
            (''bedrock_knowledge_base_role_arn'',
               [Token (br_KnowledgeBaseRole bedrock) ''RoleArn'']),
            (''bedrock_agent_role_arn'', [Token (br_AgentRole bedrock) ''RoleArn'']),
            (''cognito_client_id'', cog_ClientID cognito)];
         backendSecret = ''BackendSecrets'';
         r1 = sdk (NewSecret backendSecret
                \<lparr>sec_SecretName = ''/code-refactor/backend/secrets'',
                 sec_Description = Some ''Backend application secrets'',
                 sec_GenerateSecretString = None,
                 sec_SecretObjectValue =
                   [(''rds_credentials_secret_arn'',
                       sprintf_v backendSecrets ''rds_credentials_secret_arn''),
                    (''bedrock_knowledge_base_role_arn'',
                       sprintf_v backendSecrets ''bedrock_knowledge_base_role_arn''),
                    (''bedrock_agent_role_arn'',
                       sprintf_v backendSecrets ''bedrock_agent_role_arn''),
                    (''cognito_client_id'', sprintf_v backendSecrets ''cognito_client_id'')],
                 sec_RemovalPolicy = RemovalPolicy_DESTROY\<rparr>) resources;
         r2 = tag k backendSecret r1;
         frontendSecrets = [(''cognito_client_id'', cog_ClientID cognito)];
         frontendSecret = ''FrontendSecrets'';
         r3 = sdk (NewSecret frontendSecret
                \<lparr>sec_SecretName = ''/code-refactor/frontend/secrets'',
                 sec_Description = Some ''Frontend application secrets'',
                 sec_GenerateSecretString = None,
                 sec_SecretObjectValue =
                   [(''cognito_client_id'', sprintf_v frontendSecrets ''cognito_client_id'')],
                 sec_RemovalPolicy = RemovalPolicy_DESTROY\<rparr>) r2;
         r4 = tag k frontendSecret r3
     in r4)"

definition createConfigurationStores ::
  "Constants \<Rightarrow> GoRuntime \<Rightarrow> Resources \<Rightarrow> StorageResources \<Rightarrow> DatabaseResources
    \<Rightarrow> BedrockResources \<Rightarrow> CognitoResources \<Rightarrow> APIGatewayResources \<Rightarrow> FrontendResources
    \<Rightarrow> ComputeResources \<Rightarrow> Resources" where
  "createConfigurationStores k rt resources storage database bedrock cognito apigateway
      frontend compute =
    (let r1 = createNonSecretParameters k rt resources storage database cognito apigateway
                frontend compute;
         r2 = createSecretParameters k r1 database bedrock cognito
     in r2)"

subsection \<open>The stack-construction function\<close>

text \<open>The block of \<open>awscdk.NewCfnOutput\<close> calls of \<open>NewAppStack\<close>.\<close>

definition createOutputs ::
  "Resources \<Rightarrow> StorageResources \<Rightarrow> DatabaseResources \<Rightarrow> BedrockResources
    \<Rightarrow> CognitoResources \<Rightarrow> APIGatewayResources \<Rightarrow> FrontendResources \<Rightarrow> ComputeResources
    \<Rightarrow> Resources" where
  "createOutputs resources storage database bedrock cognito apigateway frontend compute =
    (let r1 = sdk (NewCfnOutput ''ECRRepositoryURI''
                 \<lparr>out_Value = [Token (cmp_EcrRepo compute) ''RepositoryUri''],
                  out_Description =
                    ''ECR Repository URI for the application container image'',
                  out_ExportName = ''CodeRefactor-ECR-Repository-URI''\<rparr>) resources;
         r2 = sdk (NewCfnOutput ''CognitoUserPoolID''
                 \<lparr>out_Value = cog_UserPoolID cognito,
                  out_Description = ''Cognito User Pool ID'',
                  out_ExportName = ''CodeRefactor-Cognito-UserPool-ID''\<rparr>) r1;
         r3 = sdk (NewCfnOutput ''CognitoUserPoolClientID''
                 \<lparr>out_Value = cog_ClientID cognito,
                  out_Description = ''Cognito User Pool Client ID'',
                  out_ExportName = ''CodeRefactor-Cognito-Client-ID''\<rparr>) r2;
         r4 = sdk (NewCfnOutput ''APIGatewayURL''
                 \<lparr>out_Value = gw_URL apigateway,
                  out_Description = ''API Gateway URL'',
                  out_ExportName = ''CodeRefactor-API-Gateway-URL''\<rparr>) r3;
         r5 = sdk (NewCfnOutput ''CognitoHostedUIURL''
                 \<lparr>out_Value = cog_DomainURL cognito,
                  out_Description = ''Cognito Hosted UI URL'',
                  out_ExportName = ''CodeRefactor-Cognito-HostedUI-URL''\<rparr>) r4;
         r6 = sdk (NewCfnOutput ''RDSPostgresCredentialsSecretARN''
                 \<lparr>out_Value = [Token (db_CredentialsSecret database) ''SecretArn''],
                  out_Description = ''RDS Postgres Credentials Secret ARN'',
                  out_ExportName = ''CodeRefactor-RDS-Credentials-Secret-ARN''\<rparr>) r5;
         r7 = sdk (NewCfnOutput ''RDSPostgresInstanceARN''
                 \<lparr>out_Value = [Token (db_Cluster database) ''ClusterArn''],
                  out_Description = ''RDS Postgres Cluster ARN'',
                  out_ExportName = ''CodeRefactor-RDS-Cluster-ARN''\<rparr>) r6;
         r8 = sdk (NewCfnOutput ''BucketName''
                 \<lparr>out_Value = [Lit (sto_Name storage)],
                  out_Description = ''S3 Bucket Name for Bedrock Knowledge Base'',
                  out_ExportName = ''CodeRefactor-S3-Bucket-Name''\<rparr>) r7;
         r9 = sdk (NewCfnOutput ''BedrockKnowledgeBaseRoleArn''
                 \<lparr>out_Value = [Token (br_KnowledgeBaseRole bedrock) ''RoleArn''],
                  out_Description = ''Bedrock Knowledge Base Service Role ARN'',
                  out_ExportName = ''CodeRefactor-Bedrock-KnowledgeBase-Role-ARN''\<rparr>) r8;
         r10 = sdk (NewCfnOutput ''BedrockAgentRoleArn''
                 \<lparr>out_Value = [Token (br_AgentRole bedrock) ''RoleArn''],
                  out_Description = ''Bedrock Agent Service Role ARN'',
                  out_ExportName = ''CodeRefactor-Bedrock-Agent-Role-ARN''\<rparr>) r9;
         r11 = sdk (NewCfnOutput ''FrontendBucketName''
                 \<lparr>out_Value = [Lit (fe_BucketName frontend)],
                  out_Description = ''S3 Bucket Name for Frontend Hosting'',
                  out_ExportName = ''CodeRefactor-Frontend-Bucket-Name''\<rparr>) r10;
         r12 = sdk (NewCfnOutput ''CloudFrontDistributionID''
                 \<lparr>out_Value = fe_DistributionID frontend,
                  out_Description = ''CloudFront Distribution ID for Frontend'',
                  out_ExportName = ''CodeRefactor-CloudFront-Distribution-ID''\<rparr>) r11;
         r13 = sdk (NewCfnOutput ''CloudFrontDistributionDomainName''
                 \<lparr>out_Value = fe_DistributionDomainName frontend,
                  out_Description = ''CloudFront Distribution Domain Name for Frontend'',
                  out_ExportName = ''CodeRefactor-CloudFront-Domain-Name''\<rparr>) r12
     in r13)"

text \<open>
  \<open>awscdk.NewStack\<close> starts an empty stack; \<open>stack.Account()\<close> and \<open>stack.Region()\<close> are
  the account id and region the stack was given.
\<close>

definition NewAppStack ::
  "Constants \<Rightarrow> GoRuntime \<Rightarrow> string \<Rightarrow> StackProps \<Rightarrow> error + AppStack" where
  "NewAppStack k rt stackId props =
    (let resources =
           \<lparr>res_Stack = [], res_Vpc = None,
            res_Account = sp_Account props, res_Region = sp_Region props\<rparr>;
         (networking, r1) = createNetworkingResources k resources;
         r2 = r1\<lparr>res_Vpc := Some (net_Vpc networking)\<rparr>;
         (storage, r3) = createStorageResources k r2
     in case createDatabaseResources k rt r3 networking of
          Inl e \<Rightarrow> Inl e
        | Inr (database, r4) \<Rightarrow>
            (let (cognito, r5) = createCognitoResources k r4;
                 (bedrock, r6) = createBedrockResources k r5 storage database;
                 (compute, r7) =
                   createComputeResources k r6 networking database storage cognito bedrock;
                 (apigateway, compute', r8) =
                   createAPIGatewayResources k r7 networking compute cognito database;
                 (frontend, r9) = createFrontendResources k r8;
                 (githubRole, r10) = createGitHubActionsRole k r9 frontend;
                 r11 = createConfigurationStores k rt r10 storage database bedrock cognito
                         apigateway frontend compute';
                 r12 = createOutputs r11 storage database bedrock cognito apigateway
                         frontend compute'
             in Inr \<lparr>as_Stack = res_Stack r12,
                     as_BedrockKnowledgeBaseRole = [Token (br_KnowledgeBaseRole bedrock) ''RoleArn''],
                     as_BedrockAgentRole = [Token (br_AgentRole bedrock) ''RoleArn''],
                     as_GitHubActionsRoleARN = [Token githubRole ''RoleArn''],
                     as_BucketName = sto_Name storage,
                     as_Region = res_Region r12,
                     as_Account = res_Account r12,
                     as_RDSPostgresClusterARN = [Token (db_Cluster database) ''ClusterArn''],
                     as_RDSPostgresCredentialsSecretARN =
                       [Token (db_CredentialsSecret database) ''SecretArn''],
                     as_RDSPostgresSchemaEnsureLambdaARN =
                       [Token (db_MigrationLambda database) ''FunctionArn''],
                     as_APIGatewayURL = gw_URL apigateway,
                     as_CognitoUserPoolID = cog_UserPoolID cognito,
                     as_CognitoUserPoolClientID = cog_ClientID cognito,
                     as_CognitoHostedUIURL =
                       [Lit ''https://''] @ cog_DomainURL cognito @ [Lit ''.auth.'']
                         @ [Lit (res_Region r12)] @ [Lit ''.amazoncognito.com''],
                     as_FrontendBucketName = fe_BucketName frontend,
                     as_CloudFrontDistributionID = fe_DistributionID frontend,
                     as_CloudFrontDistributionDomainName =
                       fe_DistributionDomainName frontend\<rparr>))"

subsection \<open>What each builder adds to the stack\<close>

definition emptyRes :: "string \<Rightarrow> string \<Rightarrow> Resources" where
  "emptyRes a g = \<lparr>res_Stack = [], res_Vpc = None, res_Account = a, res_Region = g\<rparr>"

definition netCalls :: "Constants \<Rightarrow> string \<Rightarrow> string \<Rightarrow> call list" where
  "netCalls k a g = res_Stack (snd (createNetworkingResources k (emptyRes a g)))"

definition stoCalls :: "Constants \<Rightarrow> string \<Rightarrow> string \<Rightarrow> call list" where
  "stoCalls k a g = res_Stack (snd (createStorageResources k (emptyRes a g)))"

definition dbCalls ::
  "Constants \<Rightarrow> GoRuntime \<Rightarrow> string \<Rightarrow> string \<Rightarrow> NetworkingResources \<Rightarrow> call list" where
  "dbCalls k rt a g networking =
    (case createDatabaseResources k rt (emptyRes a g) networking of
       Inl e \<Rightarrow> [] | Inr (d, r) \<Rightarrow> res_Stack r)"

definition cogCalls :: "Constants \<Rightarrow> string \<Rightarrow> string \<Rightarrow> call list" where
  "cogCalls k a g = res_Stack (snd (createCognitoResources k (emptyRes a g)))"

definition brCalls ::
  "Constants \<Rightarrow> string \<Rightarrow> string \<Rightarrow> StorageResources \<Rightarrow> DatabaseResources \<Rightarrow> call list" where
  "brCalls k a g storage database =
    res_Stack (snd (createBedrockResources k (emptyRes a g) storage database))"

definition cmpCalls ::
  "Constants \<Rightarrow> string \<Rightarrow> string \<Rightarrow> NetworkingResources \<Rightarrow> DatabaseResources
    \<Rightarrow> StorageResources \<Rightarrow> CognitoResources \<Rightarrow> BedrockResources \<Rightarrow> call list" where
  "cmpCalls k a g networking database storage cognito bedrock =
    res_Stack (snd (createComputeResources k (emptyRes a g) networking database storage
                      cognito bedrock))"

definition gwCalls ::
  "Constants \<Rightarrow> string \<Rightarrow> string \<Rightarrow> NetworkingResources \<Rightarrow> ComputeResources
    \<Rightarrow> CognitoResources \<Rightarrow> DatabaseResources \<Rightarrow> call list" where
  "gwCalls k a g networking compute cognito database =
    res_Stack (snd (snd (createAPIGatewayResources k (emptyRes a g) networking compute
                           cognito database)))"

definition feCalls :: "Constants \<Rightarrow> string \<Rightarrow> string \<Rightarrow> call list" where
  "feCalls k a g = res_Stack (snd (createFrontendResources k (emptyRes a g)))"

definition ghCalls :: "Constants \<Rightarrow> string \<Rightarrow> string \<Rightarrow> FrontendResources \<Rightarrow> call list" where
  "ghCalls k a g frontend = res_Stack (snd (createGitHubActionsRole k (emptyRes a g) frontend))"

definition paramCalls :: "Constants \<Rightarrow> (string \<rightharpoonup> tstring) \<Rightarrow> string \<Rightarrow> call list" where
  "paramCalls k m n =
    (case m n of None \<Rightarrow> [] | Some v \<Rightarrow> res_Stack (newParameter k n v (emptyRes [] [])))"

definition secCalls ::
  "Constants \<Rightarrow> string \<Rightarrow> string \<Rightarrow> DatabaseResources \<Rightarrow> BedrockResources
    \<Rightarrow> CognitoResources \<Rightarrow> call list" where
  "secCalls k a g database bedrock cognito =
    res_Stack (createSecretParameters k (emptyRes a g) database bedrock cognito)"

definition outCalls ::
  "string \<Rightarrow> string \<Rightarrow> StorageResources \<Rightarrow> DatabaseResources \<Rightarrow> BedrockResources
    \<Rightarrow> CognitoResources \<Rightarrow> APIGatewayResources \<Rightarrow> FrontendResources \<Rightarrow> ComputeResources
    \<Rightarrow> call list" where
  "outCalls a g storage database bedrock cognito apigateway frontend compute =
    res_Stack (createOutputs (emptyRes a g) storage database bedrock cognito apigateway
                 frontend compute)"

text \<open>The handle structs the builders return in \<open>NewAppStack\<close>.\<close>

definition networking0 :: NetworkingResources where
  "networking0 = \<lparr>net_Vpc = ''RefactorVpc'', net_SecretsManagerEndpoint = None\<rparr>"

definition storage0 :: "string \<Rightarrow> string \<Rightarrow> StorageResources" where
  "storage0 a g =
    \<lparr>sto_Bucket = ''CodeRefactorBucket'',
     sto_Name = ''code-refactor-bucket-'' @ a @ ''-'' @ g\<rparr>"

definition database0 :: "Constants \<Rightarrow> DatabaseResources" where
  "database0 k =
    \<lparr>db_Cluster = RDSPostgresDatabaseName k,
     db_CredentialsSecret = ''CodeRefactorDbSecret'',
     db_MigrationLambda = ''DbMigrationLambda'',
     db_MigrationLambdaRole = ''DbMigrationLambdaRole'',
     db_MigrationLambdaSG = ''DbMigrationLambdaSG''\<rparr>"

definition cognito0 :: CognitoResources where
  "cognito0 =
    \<lparr>cog_UserPool = ''CodeRefactorUserPool'',
     cog_UserPoolClient = ''CodeRefactorUserPoolClient'',
     cog_UserPoolDomain = ''CodeRefactorUserPoolDomain'',
     cog_UserPoolID = [Token ''CodeRefactorUserPool'' ''UserPoolId''],
     cog_ClientID = [Token ''CodeRefactorUserPoolClient'' ''UserPoolClientId''],
     cog_DomainURL = [Token ''CodeRefactorUserPoolDomain'' ''DomainName'']\<rparr>"

definition bedrock0 :: BedrockResources where
  "bedrock0 =
    \<lparr>br_KnowledgeBaseRole = ''BedrockKnowledgeBaseRole'', br_AgentRole = ''BedrockAgentRole''\<rparr>"

definition compute0 :: ComputeResources where
  "compute0 =
    \<lparr>cmp_Cluster = ''RefactorCluster'', cmp_TaskDef = ''RefactorTaskDef'',
     cmp_Service = None, cmp_EcrRepo = ''RefactorEcrRepo'',
     cmp_LogGroup = ''FargateLogGroup''\<rparr>"

definition apigateway0 :: APIGatewayResources where
  "apigateway0 =
    \<lparr>gw_RestAPI = ''CodeRefactorAPI'', gw_LoadBalancer = ''CodeRefactorALB'',
     gw_URL = [Token ''CodeRefactorAPI'' ''Url'']\<rparr>"

definition frontend0 :: "string \<Rightarrow> string \<Rightarrow> FrontendResources" where
  "frontend0 a g =
    \<lparr>fe_Bucket = ''FrontendBucket'',
     fe_BucketName = ''code-refactor-frontend-'' @ a @ ''-'' @ g,
     fe_CloudFrontDistribution = ''FrontendDistribution'',
     fe_DistributionID = [Token ''FrontendDistribution'' ''DistributionId''],
     fe_DistributionDomainName = [Token ''FrontendDistribution'' ''DistributionDomainName'']\<rparr>"

definition compute1 :: ComputeResources where
  "compute1 = compute0\<lparr>cmp_Service := Some ''CodeRefactorService''\<rparr>"

definition params0 :: "string \<Rightarrow> string \<Rightarrow> Constants \<Rightarrow> (string \<rightharpoonup> tstring)" where
  "params0 a g k =
     allParams (emptyRes a g) (storage0 a g) (database0 k) cognito0 apigateway0 (frontend0 a g)
       compute1"

text \<open>The entries of the three parameter maps of a run, in the order of the source.\<close>

definition paramList :: "string \<Rightarrow> string \<Rightarrow> Constants \<Rightarrow> (string \<times> tstring) list" where
  "paramList a g k =
     backendParams (emptyRes a g) (storage0 a g) (database0 k) cognito0 apigateway0 compute1
     @ frontendParams (emptyRes a g) cognito0 apigateway0 (frontend0 a g)
     @ deploymentParams (emptyRes a g) (frontend0 a g) compute1"

definition finalStack :: "Constants \<Rightarrow> GoRuntime \<Rightarrow> string \<Rightarrow> string \<Rightarrow> call list" where
  "finalStack k rt a g =
     netCalls k a g @ stoCalls k a g @ dbCalls k rt a g networking0 @ cogCalls k a g
     @ brCalls k a g (storage0 a g) (database0 k)
     @ cmpCalls k a g networking0 (database0 k) (storage0 a g) cognito0 bedrock0
     @ gwCalls k a g networking0 compute0 cognito0 (database0 k)
     @ feCalls k a g @ ghCalls k a g (frontend0 a g)
     @ concat (map (paramCalls k (params0 a g k)) (rangeOrder rt))
     @ secCalls k a g (database0 k) bedrock0 cognito0
     @ outCalls a g (storage0 a g) (database0 k) bedrock0 cognito0 apigateway0 (frontend0 a g)
         compute1"

subsection \<open>Sample inputs\<close>

text \<open>
  Concrete inputs on which the theorems below are instantiated: values for the package
  constants, a runtime that knows its source file and walks the parameter map in one
  particular order, and the account id and region of the example scenario.
\<close>

definition sampleConstants :: Constants where
  "sampleConstants =
    \<lparr>DefaultResourceTagKey = ''project'',
     DefaultResourceTagValue = ''CodeRefactoring'',
     RDSPostgresDatabaseName = ''RefactorVectorDb'',
     FoundationModels = [''amazon.titan-embed-text-v1'']\<rparr>"

definition sampleOrder :: "string list" where
  "sampleOrder =
    [''/code-refactor/frontend/aws-region'',
     ''/code-refactor/backend/api-gateway-url'',
     ''/code-refactor/deployment/ecr-repository-uri'',
     ''/code-refactor/backend/cognito-user-pool-id'',
     ''/code-refactor/backend/cognito-region'',
     ''/code-refactor/frontend/cognito-hosted-ui-url'',
     ''/code-refactor/backend/s3-bucket-name'',
     ''/code-refactor/backend/rds-cluster-arn'',
     ''/code-refactor/deployment/frontend-bucket'',
     ''/code-refactor/backend/aws-region'',
     ''/code-refactor/backend/aws-account-id'',
     ''/code-refactor/frontend/cloudfront-domain'',
     ''/code-refactor/backend/ecr-repository-uri'',
     ''/code-refactor/backend/ecs-cluster-name'',
     ''/code-refactor/deployment/aws-region'',
     ''/code-refactor/backend/rds-postgres-schema-ensure-lambda-arn'',
     ''/code-refactor/frontend/api-base-url'',
     ''/code-refactor/deployment/cloudfront-distribution-id'',
     ''/code-refactor/frontend/cognito-user-pool-id'']"

definition sampleRuntime :: GoRuntime where
  "sampleRuntime =
    \<lparr>Caller0 = Some ''/src/stack/app_stack.go'',
     filepath_Dir = (\<lambda>p. rev (drop 1 (dropWhile (\<lambda>c. c \<noteq> CHR ''/'') (rev p)))),
     filepath_Join = (\<lambda>a b. a @ ''/'' @ b),
     rangeOrder = sampleOrder\<rparr>"

definition sampleProps :: StackProps where
  "sampleProps = \<lparr>sp_Account = ''123456789012'', sp_Region = ''us-east-1''\<rparr>"

text \<open>A second runtime: another source path, and the reverse order of iteration.\<close>

definition sampleRuntime2 :: GoRuntime where
  "sampleRuntime2 =
     \<lparr>Caller0 = Some ''/home/ci/infra/stack/app_stack.go'',
      filepath_Dir = (\<lambda>p. p),
      filepath_Join = (\<lambda>a b. a @ b),
      rangeOrder = rev sampleOrder\<rparr>"

subsection \<open>Views of a stack\<close>

text \<open>A view gathers, call by call and in call order, what the calls on a stack declare.\<close>

definition collect :: "(call \<Rightarrow> 'a list) \<Rightarrow> call list \<Rightarrow> 'a list" where
  "collect f st = concat (map f st)"






















text \<open>
  The two configuration stores: the records written to the plain parameter store (name and
  value), and the fields written into secrets of the secret store (secret name, key, value).
\<close>

definition call_parameters :: "call \<Rightarrow> (string \<times> tstring) list" where
  "call_parameters c =
    (case c of
       NewStringParameter h p \<Rightarrow> [(ssm_ParameterName p, ssm_StringValue p)]
     | _ \<Rightarrow> [])"

definition parameterStore :: "call list \<Rightarrow> (string \<times> tstring) list" where
  "parameterStore = collect call_parameters"

definition call_secrets :: "call \<Rightarrow> (string \<times> string \<times> tstring) list" where
  "call_secrets c =
    (case c of
       NewSecret h p \<Rightarrow> map (\<lambda>kv. (sec_SecretName p, fst kv, snd kv)) (sec_SecretObjectValue p)
     | _ \<Rightarrow> [])"

definition secretStore :: "call list \<Rightarrow> (string \<times> string \<times> tstring) list" where
  "secretStore = collect call_secrets"

text \<open>
  The classes of the specification, in its words: a record is secret-valued when it is a
  role ARN or the ARN of the database credential; everything else is not.
\<close>

definition secretClassified :: "tstring \<Rightarrow> bool" where
  "secretClassified v =
    (case v of
       [Token h a] \<Rightarrow> a = ''RoleArn'' \<or> a = ''SecretArn''
     | _ \<Rightarrow> False)"

text \<open>
  The contract of the specification on the two stores: only secret-valued records in the
  secret store, none of them in the parameter store, and no value in both.
\<close>

definition storesSplitByClass :: "call list \<Rightarrow> bool" where
  "storesSplitByClass st =
    (list_all (\<lambda>x. secretClassified (snd (snd x))) (secretStore st) \<and>
     list_all (\<lambda>x. \<not> secretClassified (snd x)) (parameterStore st) \<and>
     set (map snd (parameterStore st)) \<inter> set (map (\<lambda>x. snd (snd x)) (secretStore st)) = {})"

text \<open>What a role is granted: by its inline policies, and by the calls made on it later.\<close>

datatype grant =
    ManagedPolicy string
  | ReadSecret handle
  | ReadBucket handle string
  | Statement PolicyStatementProps

definition call_grants :: "handle \<Rightarrow> call \<Rightarrow> grant list" where
  "call_grants role c =
    (case c of
       NewRole h p \<Rightarrow>
         (if h = role then map Statement (concat (map snd (role_InlinePolicies p))) else [])
     | AddManagedPolicy h n \<Rightarrow> (if h = role then [ManagedPolicy n] else [])
     | Secret_GrantRead s g \<Rightarrow> (if g = RoleGrantee role then [ReadSecret s] else [])
     | Bucket_GrantRead b g pat \<Rightarrow> (if g = RoleGrantee role then [ReadBucket b pat] else [])
     | AddToPolicy h stmt \<Rightarrow> (if h = role then [Statement stmt] else [])
     | _ \<Rightarrow> [])"

definition roleGrants :: "handle \<Rightarrow> call list \<Rightarrow> grant list" where
  "roleGrants role = collect (call_grants role)"

text \<open>
  The grants the specification allows the migration function: reading the credential
  secret, and statements of \<open>rds-data\<close> actions on the ARN of the cluster alone.
\<close>

definition dataApiStatement :: "handle \<Rightarrow> PolicyStatementProps \<Rightarrow> bool" where
  "dataApiStatement cluster stmt =
    (ps_Effect stmt \<noteq> Some Effect_DENY \<and>
     list_all (\<lambda>a. take 9 a = ''rds-data:'') (ps_Actions stmt) \<and>
     ps_Resources stmt = [[Token cluster ''ClusterArn'']])"

definition migrationGrant :: "handle \<Rightarrow> handle \<Rightarrow> grant \<Rightarrow> bool" where
  "migrationGrant cluster secret gr =
    (case gr of
       ReadSecret s \<Rightarrow> s = secret
     | Statement stmt \<Rightarrow> dataApiStatement cluster stmt
     | _ \<Rightarrow> False)"

text \<open>The names of the environment variables of the containers of the stack.\<close>

definition call_containerEnv :: "call \<Rightarrow> string list" where
  "call_containerEnv c =
    (case c of AddContainer t h opts \<Rightarrow> map fst (cd_Environment opts) | _ \<Rightarrow> [])"

definition containerEnvNames :: "call list \<Rightarrow> string list" where
  "containerEnvNames = collect call_containerEnv"

text \<open>
  The names the specification lists: credentials-secret ARN, cluster ARN, database name,
  migration-function ARN, region, role ARNs, bucket name, user-directory ID, client ID and
  region, metrics namespace, region and service name, timeout, log level.
\<close>

definition specEnvNames :: "string list" where
  "specEnvNames =
    [''AI_BEDROCK_RDS_POSTGRES_CREDENTIALS_SECRET_ARN'',
     ''AI_BEDROCK_RDS_POSTGRES_INSTANCE_ARN'',
     ''AI_BEDROCK_RDS_POSTGRES_DATABASE_NAME'',
     ''AI_BEDROCK_RDS_POSTGRES_SCHEMA_ENSURE_LAMBDA_ARN'',
     ''AI_BEDROCK_REGION'',
     ''AI_BEDROCK_KNOWLEDGE_BASE_SERVICE_ROLE_ARN'',
     ''AI_BEDROCK_AGENT_SERVICE_ROLE_ARN'',
     ''AI_BEDROCK_S3_BUCKET_NAME'',
     ''COGNITO_USER_POOL_ID'',
     ''COGNITO_CLIENT_ID'',
     ''COGNITO_REGION'',
     ''METRICS_NAMESPACE'',
     ''METRICS_REGION'',
     ''METRICS_SERVICE_NAME'',
     ''TIMEOUT_SECONDS'',
     ''LOG_LEVEL'']"

text \<open>The user pools, their clients and their hosted domains.\<close>

definition call_userPools :: "call \<Rightarrow> UserPoolProps list" where
  "call_userPools c = (case c of NewUserPool h p \<Rightarrow> [p] | _ \<Rightarrow> [])"

definition userPools :: "call list \<Rightarrow> UserPoolProps list" where
  "userPools = collect call_userPools"

definition call_userPoolClients :: "call \<Rightarrow> UserPoolClientProps list" where
  "call_userPoolClients c = (case c of NewUserPoolClient h p \<Rightarrow> [p] | _ \<Rightarrow> [])"

definition userPoolClients :: "call list \<Rightarrow> UserPoolClientProps list" where
  "userPoolClients = collect call_userPoolClients"

definition call_userPoolDomains :: "call \<Rightarrow> UserPoolDomainProps list" where
  "call_userPoolDomains c = (case c of NewUserPoolDomain h p \<Rightarrow> [p] | _ \<Rightarrow> [])"

definition userPoolDomains :: "call list \<Rightarrow> UserPoolDomainProps list" where
  "userPoolDomains = collect call_userPoolDomains"

text \<open>The buckets, and who may read a bucket.\<close>

definition call_buckets :: "call \<Rightarrow> (handle \<times> BucketProps) list" where
  "call_buckets c = (case c of NewBucket h p \<Rightarrow> [(h, p)] | _ \<Rightarrow> [])"

definition buckets :: "call list \<Rightarrow> (handle \<times> BucketProps) list" where
  "buckets = collect call_buckets"

text \<open>
  A policy statement lets its role read a bucket when it is not a denial, one of its
  actions reads S3 objects, and one of its resources is built from the bucket's ARN or
  is the wildcard.
\<close>

definition readsBucket :: "handle \<Rightarrow> PolicyStatementProps \<Rightarrow> bool" where
  "readsBucket b stmt =
    (ps_Effect stmt \<noteq> Some Effect_DENY \<and>
     list_ex (\<lambda>a. a = ''s3:GetObject'' \<or> a = ''s3:Get*'' \<or> a = ''s3:*'' \<or> a = ''*'')
       (ps_Actions stmt) \<and>
     list_ex (\<lambda>res. Token b ''BucketArn'' \<in> set res \<or> res = [Lit ''*''])
       (ps_Resources stmt))"

definition call_readers :: "handle \<Rightarrow> call \<Rightarrow> Grantee list" where
  "call_readers b c =
    (case c of
       Bucket_GrantRead h g pat \<Rightarrow> (if h = b then [g] else [])
     | NewRole h p \<Rightarrow>
         (if list_ex (readsBucket b) (concat (map snd (role_InlinePolicies p)))
          then [RoleGrantee h] else [])
     | AddToPolicy h stmt \<Rightarrow> (if readsBucket b stmt then [RoleGrantee h] else [])
     | _ \<Rightarrow> [])"

definition bucketReaders :: "handle \<Rightarrow> call list \<Rightarrow> Grantee list" where
  "bucketReaders b = collect (call_readers b)"

text \<open>
  Construction order. \<open>declared c\<close> are the names a call declares; \<open>uses c\<close> are the
  handles it is made on or is handed, in its arguments or inside a token of a string.
\<close>

fun res_handle :: "ApiResource \<Rightarrow> handle" where
  "res_handle (Root h) = h"
| "res_handle (Child r p) = res_handle r @ ''/'' @ p"

definition declared :: "call \<Rightarrow> handle list" where
  "declared c =
    (case c of
       NewVpc h p \<Rightarrow> [h]
     | NewBucket h p \<Rightarrow> [h]
     | NewSecret h p \<Rightarrow> [h]
     | NewDatabaseCluster h p \<Rightarrow> [h]
     | NewSecurityGroup h p \<Rightarrow> [h]
     | NewRole h p \<Rightarrow> [h]
     | NewFunction h p \<Rightarrow> [h]
     | NewUserPool h p \<Rightarrow> [h]
     | NewUserPoolClient h p \<Rightarrow> [h]
     | NewUserPoolDomain h p \<Rightarrow> [h]
     | NewCluster h p \<Rightarrow> [h]
     | NewLogGroup h p \<Rightarrow> [h]
     | NewFargateTaskDefinition h p \<Rightarrow> [h]
     | NewRepository h p \<Rightarrow> [h]
     | AddContainer t h opts \<Rightarrow> [h]
     | NewApplicationLoadBalancer h p \<Rightarrow> [h]
     | NewApplicationTargetGroup h p \<Rightarrow> [h]
     | NewFargateService h p \<Rightarrow> [h]
     | AddListener lb h p \<Rightarrow> [h]
     | NewRestApi h p \<Rightarrow> [h]
     | NewCognitoUserPoolsAuthorizer h p \<Rightarrow> [h]
     | AddProxy r opts \<Rightarrow>
         res_handle (Child r ''{proxy+}'')
           # (if pro_AnyMethod opts then [res_handle (Child r ''{proxy+}'') @ '' ANY''] else [])
     | AddResource r p \<Rightarrow> [res_handle (Child r p)]
     | AddMethod r m i opts \<Rightarrow> [res_handle r @ '' '' @ m]
     | NewOriginAccessIdentity h p \<Rightarrow> [h]
     | NewDistribution h p \<Rightarrow> [h]
     | NewStringParameter h p \<Rightarrow> [h]
     | NewCfnOutput h p \<Rightarrow> [h]
     | _ \<Rightarrow> [])"

definition resourceNames :: "call list \<Rightarrow> handle list" where
  "resourceNames = collect declared"

definition statement_handles :: "PolicyStatementProps \<Rightarrow> handle list" where
  "statement_handles stmt = concat (map handles_of (ps_Resources stmt))"

definition env_handles :: "(string \<times> tstring) list \<Rightarrow> handle list" where
  "env_handles env = concat (map (\<lambda>kv. handles_of (snd kv)) env)"

fun grantee_handle :: "Grantee \<Rightarrow> handle" where
  "grantee_handle (RoleGrantee h) = h"
| "grantee_handle (GrantPrincipal h) = h"

definition options_handles :: "MethodOptions \<Rightarrow> handle list" where
  "options_handles opts = (case mo_Authorizer opts of None \<Rightarrow> [] | Some a \<Rightarrow> [a])"

definition uses :: "call \<Rightarrow> handle list" where
  "uses c =
    (case c of
       NewVpc h p \<Rightarrow> []
     | NewBucket h p \<Rightarrow> []
     | NewSecret h p \<Rightarrow> env_handles (sec_SecretObjectValue p)
     | NewDatabaseCluster h p \<Rightarrow>
         dbc_Vpc p # (case dbc_Credentials p of Credentials_FromSecret s u \<Rightarrow> [s])
     | NewSecurityGroup h p \<Rightarrow> [sg_Vpc p]
     | Connections_AllowFrom h peer port d \<Rightarrow> [h, peer]
     | NewRole h p \<Rightarrow> concat (map statement_handles (concat (map snd (role_InlinePolicies p))))
     | AddManagedPolicy h n \<Rightarrow> [h]
     | Secret_GrantRead h g \<Rightarrow> [h, grantee_handle g]
     | AddToPolicy h stmt \<Rightarrow> h # statement_handles stmt
     | NewFunction h p \<Rightarrow>
         fn_Vpc p # fn_SecurityGroups p @ [fn_Role p] @ env_handles (fn_Environment p)
     | NewUserPool h p \<Rightarrow> []
     | NewUserPoolClient h p \<Rightarrow> [upc_UserPool p]
     | NewUserPoolDomain h p \<Rightarrow> [upd_UserPool p]
     | NewCluster h p \<Rightarrow> [ecs_Vpc p]
     | NewLogGroup h p \<Rightarrow> []
     | NewFargateTaskDefinition h p \<Rightarrow> [td_TaskRole p]
     | NewRepository h p \<Rightarrow> []
     | AddContainer t h opts \<Rightarrow>
         t # (case cd_Image opts of ContainerImage_FromEcrRepository repo tg \<Rightarrow> [repo])
           @ [ald_LogGroup (cd_Logging opts)] @ env_handles (cd_Environment opts)
     | AddPortMappings h pm \<Rightarrow> [h]
     | NewApplicationLoadBalancer h p \<Rightarrow> [alb_Vpc p]
     | NewApplicationTargetGroup h p \<Rightarrow> [tg_Vpc p]
     | NewFargateService h p \<Rightarrow> svc_Cluster p # svc_TaskDefinition p # svc_SecurityGroups p
     | AttachToApplicationTargetGroup h tg \<Rightarrow> [h, tg]
     | AddListener lb h p \<Rightarrow> lb # lis_DefaultTargetGroups p
     | NewRestApi h p \<Rightarrow> []
     | NewCognitoUserPoolsAuthorizer h p \<Rightarrow> auth_CognitoUserPools p
     | AddProxy r opts \<Rightarrow>
         res_handle r # handles_of (hi_Url (pro_DefaultIntegration opts))
           @ options_handles (pro_DefaultMethodOptions opts)
     | AddResource r p \<Rightarrow> [res_handle r]
     | AddMethod r m i opts \<Rightarrow> res_handle r # handles_of (hi_Url i) @ options_handles opts
     | NewOriginAccessIdentity h p \<Rightarrow> []
     | Bucket_GrantRead h g pat \<Rightarrow> [h, grantee_handle g]
     | NewDistribution h p \<Rightarrow>
         (case bh_Origin (dist_DefaultBehavior p) of S3Origin b oai \<Rightarrow> [b, oai])
     | NewStringParameter h p \<Rightarrow> handles_of (ssm_StringValue p)
     | NewCfnOutput h p \<Rightarrow> handles_of (out_Value p)
     | Tags_Of_Add h t v \<Rightarrow> [h]
     | ApplyRemovalPolicy h pol \<Rightarrow> [h])"

text \<open>
  Every call in order: each handle a call uses was declared by a call before it.
\<close>

fun inOrder :: "handle list \<Rightarrow> call list \<Rightarrow> bool" where
  "inOrder seen [] = True"
| "inOrder seen (c # cs) = (list_all (\<lambda>h. h \<in> set seen) (uses c) \<and> inOrder (seen @ declared c) cs)"

subsection \<open>Every builder appends to the stack\<close>

lemmas step_defs = sdk_def tag_def Let_def emptyRes_def

lemma createNetworkingResources_adds:
  "createNetworkingResources k r =
     (networking0, r\<lparr>res_Stack := res_Stack r @ netCalls k (res_Account r) (res_Region r)\<rparr>)"
  by (simp add: createNetworkingResources_def netCalls_def networking0_def step_defs)

lemma createStorageResources_adds:
  "createStorageResources k r =
     (storage0 (res_Account r) (res_Region r),
      r\<lparr>res_Stack := res_Stack r @ stoCalls k (res_Account r) (res_Region r)\<rparr>)"
  by (simp add: createStorageResources_def stoCalls_def storage0_def step_defs)

lemma createDatabaseResources_adds:
  "Caller0 rt = Some f \<Longrightarrow>
   createDatabaseResources k rt r networking =
     Inr (database0 k,
          r\<lparr>res_Stack := res_Stack r @ dbCalls k rt (res_Account r) (res_Region r) networking\<rparr>)"
  by (simp add: createDatabaseResources_def createMigrationLambda_def
        setupMigrationLambdaPermissions_def getThisFileDir_def dbCalls_def database0_def
        step_defs)

lemma createCognitoResources_adds:
  "createCognitoResources k r =
     (cognito0, r\<lparr>res_Stack := res_Stack r @ cogCalls k (res_Account r) (res_Region r)\<rparr>)"
  by (simp add: createCognitoResources_def cogCalls_def cognito0_def step_defs)

lemma createBedrockResources_adds:
  "createBedrockResources k r storage database =
     (bedrock0,
      r\<lparr>res_Stack := res_Stack r @ brCalls k (res_Account r) (res_Region r) storage database\<rparr>)"
  by (simp add: createBedrockResources_def createBedrockKnowledgeBaseRole_def
        createBedrockAgentRole_def brCalls_def bedrock0_def step_defs)

lemma createComputeResources_adds:
  "createComputeResources k r networking database storage cognito bedrock =
     (compute0,
      r\<lparr>res_Stack := res_Stack r @ cmpCalls k (res_Account r) (res_Region r) networking
                                     database storage cognito bedrock\<rparr>)"
  by (simp add: createComputeResources_def cmpCalls_def compute0_def step_defs)

lemma createAPIGatewayResources_adds:
  "createAPIGatewayResources k r networking compute cognito database =
     (apigateway0, compute\<lparr>cmp_Service := Some ''CodeRefactorService''\<rparr>,
      r\<lparr>res_Stack := res_Stack r @ gwCalls k (res_Account r) (res_Region r) networking
                                     compute cognito database\<rparr>)"
  by (simp add: createAPIGatewayResources_def gwCalls_def apigateway0_def step_defs)

lemma createFrontendResources_adds:
  "createFrontendResources k r =
     (frontend0 (res_Account r) (res_Region r),
      r\<lparr>res_Stack := res_Stack r @ feCalls k (res_Account r) (res_Region r)\<rparr>)"
  by (simp add: createFrontendResources_def feCalls_def frontend0_def step_defs)

lemma createGitHubActionsRole_adds:
  "createGitHubActionsRole k r frontend =
     (''GitHubActionsRole'',
      r\<lparr>res_Stack := res_Stack r @ ghCalls k (res_Account r) (res_Region r) frontend\<rparr>)"
  by (simp add: createGitHubActionsRole_def ghCalls_def step_defs)

lemma newParameter_adds:
  "newParameter k n v r =
     r\<lparr>res_Stack := res_Stack r @ res_Stack (newParameter k n v (emptyRes [] []))\<rparr>"
  by (simp add: newParameter_def step_defs)

lemma foldl_params:
  "foldl (\<lambda>r n. case m n of None \<Rightarrow> r | Some v \<Rightarrow> newParameter k n v r) r0 order
     = r0\<lparr>res_Stack := res_Stack r0 @ concat (map (paramCalls k m) order)\<rparr>"
proof (induction order arbitrary: r0)
  case Nil
  then show ?case by simp
next
  case (Cons n ns)
  show ?case
  proof (cases "m n")
    case None
    then show ?thesis using Cons.IH [of r0] by (simp add: paramCalls_def)
  next
    case (Some v)
    then show ?thesis
      using Cons.IH [of "newParameter k n v r0"] newParameter_adds [of k n v r0]
      by (simp add: paramCalls_def)
  qed
qed

lemma allParams_indep:
  "allParams r = allParams (emptyRes (res_Account r) (res_Region r))"
  by (intro ext)
     (simp add: allParams_def backendParams_def frontendParams_def deploymentParams_def
        emptyRes_def)

lemma createNonSecretParameters_adds:
  "createNonSecretParameters k rt r storage database cognito apigateway frontend compute =
     r\<lparr>res_Stack := res_Stack r @
         concat (map (paramCalls k
                  (allParams (emptyRes (res_Account r) (res_Region r)) storage database cognito
                     apigateway frontend compute))
                (rangeOrder rt))\<rparr>"
  by (simp add: createNonSecretParameters_def foldl_params allParams_indep [symmetric])

lemma createSecretParameters_adds:
  "createSecretParameters k r database bedrock cognito =
     r\<lparr>res_Stack := res_Stack r @ secCalls k (res_Account r) (res_Region r) database bedrock
                                     cognito\<rparr>"
  by (simp add: createSecretParameters_def secCalls_def step_defs)

lemma createOutputs_adds:
  "createOutputs r storage database bedrock cognito apigateway frontend compute =
     r\<lparr>res_Stack := res_Stack r @ outCalls (res_Account r) (res_Region r) storage database
                                     bedrock cognito apigateway frontend compute\<rparr>"
  by (simp add: createOutputs_def outCalls_def step_defs)

lemmas adds =
  createNetworkingResources_adds createStorageResources_adds createDatabaseResources_adds
  createCognitoResources_adds createBedrockResources_adds createComputeResources_adds
  createAPIGatewayResources_adds createFrontendResources_adds createGitHubActionsRole_adds
  createNonSecretParameters_adds createSecretParameters_adds createOutputs_adds

lemma NewAppStack_returns:
  assumes "Caller0 rt = Some f"
  shows "\<exists>s. NewAppStack k rt i p = Inr s
           \<and> as_Stack s = finalStack k rt (sp_Account p) (sp_Region p)
           \<and> as_BucketName s = sto_Name (storage0 (sp_Account p) (sp_Region p))
           \<and> as_CognitoHostedUIURL s =
               [Lit ''https://''] @ cog_DomainURL cognito0 @ [Lit ''.auth.'']
                 @ [Lit (sp_Region p)] @ [Lit ''.amazoncognito.com'']"
  using assms
  by (simp add: NewAppStack_def adds createConfigurationStores_def Let_def finalStack_def
        params0_def compute1_def emptyRes_def)

lemma NewAppStack_panics:
  assumes "Caller0 rt = None"
  shows "NewAppStack k rt i p = Inl (Panic ''unable to get current file path'')"
  using assms
  by (simp add: NewAppStack_def createNetworkingResources_adds createStorageResources_adds
        createDatabaseResources_def createMigrationLambda_def getThisFileDir_def Let_def)

lemmas part_defs =
  netCalls_def stoCalls_def dbCalls_def cogCalls_def brCalls_def cmpCalls_def gwCalls_def
  feCalls_def ghCalls_def secCalls_def outCalls_def
  createNetworkingResources_def createStorageResources_def
  createDatabaseResources_def createMigrationLambda_def setupMigrationLambdaPermissions_def
  getThisFileDir_def createCognitoResources_def createBedrockResources_def
  createBedrockKnowledgeBaseRole_def createBedrockAgentRole_def createComputeResources_def
  createAPIGatewayResources_def createFrontendResources_def createGitHubActionsRole_def
  createSecretParameters_def createOutputs_def
  networking0_def storage0_def database0_def cognito0_def bedrock0_def compute0_def
  compute1_def apigateway0_def frontend0_def step_defs

lemma collect_append: "collect f (a @ b) = collect f a @ collect f b"
  by (simp add: collect_def)

lemma paramCalls_cases:
  "paramCalls k m n = [] \<or>
   (\<exists>h p t v. paramCalls k m n = [NewStringParameter h p, Tags_Of_Add h t v])"
  by (simp add: paramCalls_def newParameter_def step_defs split: option.splits)

lemma collect_params_nil:
  assumes "\<And>h p. f (NewStringParameter h p) = []" and "\<And>h t v. f (Tags_Of_Add h t v) = []"
  shows "collect f (concat (map (paramCalls k m) order)) = []"
proof (induction order)
  case Nil
  then show ?case by (simp add: collect_def)
next
  case (Cons n ns)
  have "collect f (paramCalls k m n) = []"
    using paramCalls_cases [of k m n] assms by (auto simp: collect_def)
  with Cons show ?case by (simp add: collect_append)
qed

lemma collect_final:
  "collect f (finalStack k rt a g) =
     collect f (netCalls k a g) @ collect f (stoCalls k a g)
     @ collect f (dbCalls k rt a g networking0) @ collect f (cogCalls k a g)
     @ collect f (brCalls k a g (storage0 a g) (database0 k))
     @ collect f (cmpCalls k a g networking0 (database0 k) (storage0 a g) cognito0 bedrock0)
     @ collect f (gwCalls k a g networking0 compute0 cognito0 (database0 k))
     @ collect f (feCalls k a g) @ collect f (ghCalls k a g (frontend0 a g))
     @ collect f (concat (map (paramCalls k (params0 a g k)) (rangeOrder rt)))
     @ collect f (secCalls k a g (database0 k) bedrock0 cognito0)
     @ collect f (outCalls a g (storage0 a g) (database0 k) bedrock0 cognito0 apigateway0
                    (frontend0 a g) compute1)"
  by (simp add: finalStack_def collect_append)

text \<open>A run that finds its source file returns the stack of all the parts.\<close>

lemma final_of_run:
  assumes "Caller0 rt = Some f"
  obtains s where "NewAppStack k rt i p = Inr s"
    and "as_Stack s = finalStack k rt (sp_Account p) (sp_Region p)"
  using NewAppStack_returns [OF assms] by blast

lemma sample_caller: "Caller0 sampleRuntime = Some ''/src/stack/app_stack.go''"
  by (simp add: sampleRuntime_def)

lemma sample_final:
  obtains s where
    "NewAppStack sampleConstants sampleRuntime ''CodeRefactorInfra'' sampleProps = Inr s"
    and "as_Stack s = finalStack sampleConstants sampleRuntime (sp_Account sampleProps)
                    (sp_Region sampleProps)"
  using NewAppStack_returns [OF sample_caller] by blast

subsection \<open>The routing table\<close>












subsection \<open>The role of the migration function\<close>

lemma roleGrants_migration_final:
  assumes "Caller0 rt = Some f"
  shows "roleGrants ''DbMigrationLambdaRole'' (finalStack k rt a g) =
    [ManagedPolicy ''service-role/AWSLambdaBasicExecutionRole'',
     ManagedPolicy ''service-role/AWSLambdaVPCAccessExecutionRole'',
     ReadSecret ''CodeRefactorDbSecret'',
     Statement
       \<lparr>ps_Sid = None, ps_Effect = None,
        ps_Actions =
          [''rds-data:ExecuteStatement'',
           ''rds-data:BatchExecuteStatement'',
           ''rds-data:BeginTransaction'',
           ''rds-data:CommitTransaction'',
           ''rds-data:RollbackTransaction'',
           ''rds-data:ExecuteSql'',
           ''rds-data:DescribeTable''],
        ps_Resources = [[Token (RDSPostgresDatabaseName k) ''ClusterArn'']]\<rparr>]"
proof -
  have "collect (call_grants r) (concat (map (paramCalls k m) order)) = []" for r m order
    by (rule collect_params_nil) (simp_all add: call_grants_def)
  then show ?thesis
    using assms unfolding roleGrants_def collect_final
    by (simp add: part_defs collect_def call_grants_def)
qed

text \<open>
  C3, as stated, fails: on the sample inputs the role of the migration function holds a
  grant that is neither a read of the credential secret nor an \<open>rds-data\<close> statement on
  the cluster.
\<close>

theorem migration_role_grants_counterexample:
  "\<exists>s. NewAppStack sampleConstants sampleRuntime ''CodeRefactorInfra'' sampleProps = Inr s
     \<and> \<not> list_all
           (migrationGrant (RDSPostgresDatabaseName sampleConstants) ''CodeRefactorDbSecret'')
           (roleGrants ''DbMigrationLambdaRole'' (as_Stack s))"
proof -
  obtain s where s:
    "NewAppStack sampleConstants sampleRuntime ''CodeRefactorInfra'' sampleProps = Inr s"
    "as_Stack s = finalStack sampleConstants sampleRuntime (sp_Account sampleProps)
                    (sp_Region sampleProps)"
    using final_of_run [OF sample_caller] by metis
  have "\<not> list_all
           (migrationGrant (RDSPostgresDatabaseName sampleConstants) ''CodeRefactorDbSecret'')
           (roleGrants ''DbMigrationLambdaRole'' (as_Stack s))"
    using s(2) roleGrants_migration_final [OF sample_caller]
    by (simp add: migrationGrant_def)
  with s(1) show ?thesis by blast
qed

text \<open>
  C3, amended. The role of the migration function is granted exactly: the two managed
  policies \<open>AWSLambdaBasicExecutionRole\<close> (logs) and \<open>AWSLambdaVPCAccessExecutionRole\<close>
  (network interfaces), read access to the credential secret, and one statement of seven
  \<open>rds-data\<close> actions on the ARN of the cluster. Apart from the two managed policies every
  grant is a read of the secret or a data-API statement on the cluster.
\<close>

theorem migration_role_grants:
  assumes "Caller0 rt = Some f"
  shows "\<exists>s. NewAppStack k rt i p = Inr s
     \<and> roleGrants ''DbMigrationLambdaRole'' (as_Stack s) =
        [ManagedPolicy ''service-role/AWSLambdaBasicExecutionRole'',
         ManagedPolicy ''service-role/AWSLambdaVPCAccessExecutionRole'',
         ReadSecret ''CodeRefactorDbSecret'',
         Statement
           \<lparr>ps_Sid = None, ps_Effect = None,
            ps_Actions =
              [''rds-data:ExecuteStatement'',
               ''rds-data:BatchExecuteStatement'',
               ''rds-data:BeginTransaction'',
               ''rds-data:CommitTransaction'',
               ''rds-data:RollbackTransaction'',
               ''rds-data:ExecuteSql'',
               ''rds-data:DescribeTable''],
            ps_Resources = [[Token (RDSPostgresDatabaseName k) ''ClusterArn'']]\<rparr>]
     \<and> filter (\<lambda>gr. \<not> migrationGrant (RDSPostgresDatabaseName k) ''CodeRefactorDbSecret'' gr)
          (roleGrants ''DbMigrationLambdaRole'' (as_Stack s)) =
        [ManagedPolicy ''service-role/AWSLambdaBasicExecutionRole'',
         ManagedPolicy ''service-role/AWSLambdaVPCAccessExecutionRole'']"
proof -
  obtain s where s: "NewAppStack k rt i p = Inr s"
    "as_Stack s = finalStack k rt (sp_Account p) (sp_Region p)"
    using final_of_run [OF assms] by metis
  show ?thesis
    using s roleGrants_migration_final [OF assms]
    by (simp add: migrationGrant_def dataApiStatement_def)
qed

theorem migration_role_grants_witness:
  "\<exists>s. NewAppStack sampleConstants sampleRuntime ''CodeRefactorInfra'' sampleProps = Inr s
     \<and> roleGrants ''DbMigrationLambdaRole'' (as_Stack s) =
        [ManagedPolicy ''service-role/AWSLambdaBasicExecutionRole'',
         ManagedPolicy ''service-role/AWSLambdaVPCAccessExecutionRole'',
         ReadSecret ''CodeRefactorDbSecret'',
         Statement
           \<lparr>ps_Sid = None, ps_Effect = None,
            ps_Actions =
              [''rds-data:ExecuteStatement'',
               ''rds-data:BatchExecuteStatement'',
               ''rds-data:BeginTransaction'',
               ''rds-data:CommitTransaction'',
               ''rds-data:RollbackTransaction'',
               ''rds-data:ExecuteSql'',
               ''rds-data:DescribeTable''],
            ps_Resources = [[Token ''RefactorVectorDb'' ''ClusterArn'']]\<rparr>]
     \<and> filter (\<lambda>gr. \<not> migrationGrant ''RefactorVectorDb'' ''CodeRefactorDbSecret'' gr)
          (roleGrants ''DbMigrationLambdaRole'' (as_Stack s)) =
        [ManagedPolicy ''service-role/AWSLambdaBasicExecutionRole'',
         ManagedPolicy ''service-role/AWSLambdaVPCAccessExecutionRole'']"
  using migration_role_grants [OF sample_caller, of sampleConstants "''CodeRefactorInfra''" sampleProps]
  by (simp add: sampleConstants_def)

subsection \<open>The environment of the application container\<close>

lemma containerEnvNames_final:
  assumes "Caller0 rt = Some f"
  shows "containerEnvNames (finalStack k rt a g) =
    [''GIT_TOKEN'', ''GIT_AUTHOR'', ''GIT_EMAIL'',
     ''AI_DEFAULT_PROVIDER'', ''AI_LOCAL_ENABLED'',
     ''AI_BEDROCK_RDS_POSTGRES_CREDENTIALS_SECRET_ARN'',
     ''AI_BEDROCK_RDS_POSTGRES_INSTANCE_ARN'',
     ''AI_BEDROCK_RDS_POSTGRES_DATABASE_NAME'',
     ''AI_BEDROCK_RDS_POSTGRES_SCHEMA_ENSURE_LAMBDA_ARN'',
     ''AI_BEDROCK_REGION'',
     ''AI_BEDROCK_KNOWLEDGE_BASE_SERVICE_ROLE_ARN'',
     ''AI_BEDROCK_AGENT_SERVICE_ROLE_ARN'',
     ''AI_BEDROCK_S3_BUCKET_NAME'',
     ''COGNITO_USER_POOL_ID'', ''COGNITO_CLIENT_ID'', ''COGNITO_REGION'',
     ''METRICS_NAMESPACE'', ''METRICS_REGION'', ''METRICS_SERVICE_NAME'',
     ''METRICS_ENABLED'',
     ''TIMEOUT_SECONDS'', ''LOG_LEVEL'']"
proof -
  have "collect call_containerEnv (concat (map (paramCalls k m) order)) = []" for m order
    by (rule collect_params_nil) (simp_all add: call_containerEnv_def)
  then show ?thesis
    using assms unfolding containerEnvNames_def collect_final
    by (simp add: part_defs collect_def call_containerEnv_def)
qed

text \<open>
  C4, as stated, fails: on the sample inputs the container is given a variable,
  \<open>GIT_TOKEN\<close>, that is not in the list of the specification.
\<close>

theorem container_environment_counterexample:
  "\<exists>s. NewAppStack sampleConstants sampleRuntime ''CodeRefactorInfra'' sampleProps = Inr s
     \<and> set (containerEnvNames (as_Stack s)) \<noteq> set specEnvNames"
proof -
  obtain s where s:
    "NewAppStack sampleConstants sampleRuntime ''CodeRefactorInfra'' sampleProps = Inr s"
    "as_Stack s = finalStack sampleConstants sampleRuntime (sp_Account sampleProps)
                    (sp_Region sampleProps)"
    using final_of_run [OF sample_caller] by metis
  have "''GIT_TOKEN'' \<in> set (containerEnvNames (as_Stack s))"
    using s(2) containerEnvNames_final [OF sample_caller] by simp
  moreover have "''GIT_TOKEN'' \<notin> set specEnvNames"
    by (simp add: specEnvNames_def)
  ultimately have "set (containerEnvNames (as_Stack s)) \<noteq> set specEnvNames"
    by blast
  with s(1) show ?thesis by blast
qed

text \<open>
  C4, amended. The application container is given exactly twenty-two environment
  variables: the sixteen names the specification lists, none of them missing, and six
  more: \<open>GIT_TOKEN\<close>, \<open>GIT_AUTHOR\<close>, \<open>GIT_EMAIL\<close>, \<open>AI_DEFAULT_PROVIDER\<close>,
  \<open>AI_LOCAL_ENABLED\<close> and \<open>METRICS_ENABLED\<close>.
\<close>

theorem container_environment:
  assumes "Caller0 rt = Some f"
  shows "\<exists>s. NewAppStack k rt i p = Inr s
     \<and> set (containerEnvNames (as_Stack s)) =
         set specEnvNames \<union>
         {''GIT_TOKEN'', ''GIT_AUTHOR'', ''GIT_EMAIL'', ''AI_DEFAULT_PROVIDER'',
          ''AI_LOCAL_ENABLED'', ''METRICS_ENABLED''}
     \<and> distinct (containerEnvNames (as_Stack s))
     \<and> length (containerEnvNames (as_Stack s)) = 22"
proof -
  obtain s where s: "NewAppStack k rt i p = Inr s"
    "as_Stack s = finalStack k rt (sp_Account p) (sp_Region p)"
    using final_of_run [OF assms] by metis
  have 1: "set (containerEnvNames (as_Stack s)) =
         set specEnvNames \<union>
         {''GIT_TOKEN'', ''GIT_AUTHOR'', ''GIT_EMAIL'', ''AI_DEFAULT_PROVIDER'',
          ''AI_LOCAL_ENABLED'', ''METRICS_ENABLED''}"
    unfolding s(2) containerEnvNames_final [OF assms] specEnvNames_def by auto
  have 2: "distinct (containerEnvNames (as_Stack s))"
    unfolding s(2) containerEnvNames_final [OF assms] by simp
  have 3: "length (containerEnvNames (as_Stack s)) = 22"
    unfolding s(2) containerEnvNames_final [OF assms] by simp
  from s(1) 1 2 3 show ?thesis by blast
qed

theorem container_environment_witness:
  "\<exists>s. NewAppStack sampleConstants sampleRuntime ''CodeRefactorInfra'' sampleProps = Inr s
     \<and> set (containerEnvNames (as_Stack s)) =
         set specEnvNames \<union>
         {''GIT_TOKEN'', ''GIT_AUTHOR'', ''GIT_EMAIL'', ''AI_DEFAULT_PROVIDER'',
          ''AI_LOCAL_ENABLED'', ''METRICS_ENABLED''}
     \<and> distinct (containerEnvNames (as_Stack s))
     \<and> length (containerEnvNames (as_Stack s)) = 22"
  using container_environment [OF sample_caller] by blast

subsection \<open>The example scenario and the identity constants\<close>

text \<open>
  C6. For the account id \<open>123456789012\<close> and the region \<open>us-east-1\<close> the storage declarer
  names the bucket \<open>code-refactor-bucket-123456789012-us-east-1\<close>, in the struct it returns
  and in the bucket it declares, and the identity declarer gives the hosted domain the
  prefix \<open>code-refactor-123456789012\<close>.
\<close>

theorem example_scenario_names:
  "sto_Name (fst (createStorageResources k
      \<lparr>res_Stack = [], res_Vpc = v, res_Account = ''123456789012'',
       res_Region = ''us-east-1''\<rparr>))
     = ''code-refactor-bucket-123456789012-us-east-1''
   \<and> map (\<lambda>x. bk_BucketName (snd x))
        (buckets (res_Stack (snd (createStorageResources k
           \<lparr>res_Stack = [], res_Vpc = v, res_Account = ''123456789012'',
            res_Region = ''us-east-1''\<rparr>))))
     = [''code-refactor-bucket-123456789012-us-east-1'']
   \<and> map (\<lambda>d. cdo_DomainPrefix (upd_CognitoDomain d))
        (userPoolDomains (res_Stack (snd (createCognitoResources k
           \<lparr>res_Stack = [], res_Vpc = v, res_Account = ''123456789012'',
            res_Region = ''us-east-1''\<rparr>))))
     = [''code-refactor-123456789012'']"
  by (simp add: createStorageResources_def createCognitoResources_def step_defs buckets_def
        userPoolDomains_def collect_def call_buckets_def call_userPoolDomains_def)

theorem example_scenario_names_witness:
  "sto_Name (fst (createStorageResources sampleConstants
      \<lparr>res_Stack = [], res_Vpc = None, res_Account = ''123456789012'',
       res_Region = ''us-east-1''\<rparr>))
     = ''code-refactor-bucket-123456789012-us-east-1''
   \<and> map (\<lambda>x. bk_BucketName (snd x))
        (buckets (res_Stack (snd (createStorageResources sampleConstants
           \<lparr>res_Stack = [], res_Vpc = None, res_Account = ''123456789012'',
            res_Region = ''us-east-1''\<rparr>))))
     = [''code-refactor-bucket-123456789012-us-east-1'']
   \<and> map (\<lambda>d. cdo_DomainPrefix (upd_CognitoDomain d))
        (userPoolDomains (res_Stack (snd (createCognitoResources sampleConstants
           \<lparr>res_Stack = [], res_Vpc = None, res_Account = ''123456789012'',
            res_Region = ''us-east-1''\<rparr>))))
     = [''code-refactor-123456789012'']"
  using example_scenario_names [of sampleConstants None] by simp

text \<open>
  C8. Whatever the account, the region and the constants, the identity declarer declares
  one user pool with self-service signup and automatic verification of the email address,
  and one client of that pool whose ID token and access token are valid for 24 hours and
  whose refresh token is valid for 30 days.
\<close>

theorem identity_policy_constants:
  "map up_SelfSignUpEnabled
      (userPools (res_Stack (snd (createCognitoResources k
         \<lparr>res_Stack = [], res_Vpc = v, res_Account = a, res_Region = g\<rparr>)))) = [True]
   \<and> map (\<lambda>u. av_Email (up_AutoVerify u))
      (userPools (res_Stack (snd (createCognitoResources k
         \<lparr>res_Stack = [], res_Vpc = v, res_Account = a, res_Region = g\<rparr>)))) = [True]
   \<and> map (\<lambda>c. (upc_UserPool c, upc_IdTokenValidity c, upc_AccessTokenValidity c,
                upc_RefreshTokenValidity c))
      (userPoolClients (res_Stack (snd (createCognitoResources k
         \<lparr>res_Stack = [], res_Vpc = v, res_Account = a, res_Region = g\<rparr>))))
     = [(''CodeRefactorUserPool'', Duration_Hours 24, Duration_Hours 24, Duration_Days 30)]
   \<and> cog_UserPool (fst (createCognitoResources k
         \<lparr>res_Stack = [], res_Vpc = v, res_Account = a, res_Region = g\<rparr>))
     = ''CodeRefactorUserPool''
   \<and> toSeconds (Duration_Hours 24) = 24 * 60 * 60
   \<and> toSeconds (Duration_Days 30) = 30 * 24 * 60 * 60"
  by (simp add: createCognitoResources_def step_defs userPools_def userPoolClients_def
        collect_def call_userPools_def call_userPoolClients_def)

theorem identity_policy_constants_witness:
  "map up_SelfSignUpEnabled
      (userPools (res_Stack (snd (createCognitoResources sampleConstants
         \<lparr>res_Stack = [], res_Vpc = None, res_Account = ''123456789012'',
          res_Region = ''us-east-1''\<rparr>)))) = [True]
   \<and> map (\<lambda>u. av_Email (up_AutoVerify u))
      (userPools (res_Stack (snd (createCognitoResources sampleConstants
         \<lparr>res_Stack = [], res_Vpc = None, res_Account = ''123456789012'',
          res_Region = ''us-east-1''\<rparr>)))) = [True]
   \<and> map (\<lambda>c. (upc_UserPool c, upc_IdTokenValidity c, upc_AccessTokenValidity c,
                upc_RefreshTokenValidity c))
      (userPoolClients (res_Stack (snd (createCognitoResources sampleConstants
         \<lparr>res_Stack = [], res_Vpc = None, res_Account = ''123456789012'',
          res_Region = ''us-east-1''\<rparr>))))
     = [(''CodeRefactorUserPool'', Duration_Hours 24, Duration_Hours 24, Duration_Days 30)]
   \<and> cog_UserPool (fst (createCognitoResources sampleConstants
         \<lparr>res_Stack = [], res_Vpc = None, res_Account = ''123456789012'',
          res_Region = ''us-east-1''\<rparr>))
     = ''CodeRefactorUserPool''
   \<and> toSeconds (Duration_Hours 24) = 24 * 60 * 60
   \<and> toSeconds (Duration_Days 30) = 30 * 24 * 60 * 60"
  using identity_policy_constants
          [of sampleConstants None "''123456789012''" "''us-east-1''"]
  by simp

subsection \<open>The buckets\<close>

lemma buckets_final:
  assumes "Caller0 rt = Some f"
  shows "map (\<lambda>x. (fst x, bk_BlockPublicAccess (snd x))) (buckets (finalStack k rt a g)) =
    [(''CodeRefactorBucket'', BlockPublicAccess_BLOCK_ALL),
     (''FrontendBucket'', BlockPublicAccess_BLOCK_ALL)]"
proof -
  have "collect call_buckets (concat (map (paramCalls k m) order)) = []" for m order
    by (rule collect_params_nil) (simp_all add: call_buckets_def)
  then show ?thesis
    using assms unfolding buckets_def collect_final
    by (simp add: part_defs collect_def call_buckets_def)
qed

lemma bucketReaders_final:
  assumes "Caller0 rt = Some f"
  shows "bucketReaders ''FrontendBucket'' (finalStack k rt a g) =
    [GrantPrincipal ''FrontendOAI'', RoleGrantee ''GitHubActionsRole'']"
proof -
  have "collect (call_readers b) (concat (map (paramCalls k m) order)) = []" for b m order
    by (rule collect_params_nil) (simp_all add: call_readers_def)
  then show ?thesis
    using assms unfolding bucketReaders_def collect_final
    by (simp add: part_defs collect_def call_readers_def readsBucket_def)
qed

text \<open>
  C10, as stated, fails: on the sample inputs the frontend bucket has a reader other
  than the origin-access identity.
\<close>

theorem frontend_bucket_readers_counterexample:
  "\<exists>s. NewAppStack sampleConstants sampleRuntime ''CodeRefactorInfra'' sampleProps = Inr s
     \<and> \<not> set (bucketReaders ''FrontendBucket'' (as_Stack s))
           \<subseteq> {GrantPrincipal ''FrontendOAI''}"
proof -
  obtain s where s:
    "NewAppStack sampleConstants sampleRuntime ''CodeRefactorInfra'' sampleProps = Inr s"
    "as_Stack s = finalStack sampleConstants sampleRuntime (sp_Account sampleProps)
                    (sp_Region sampleProps)"
    using final_of_run [OF sample_caller] by metis
  have "\<not> set (bucketReaders ''FrontendBucket'' (as_Stack s))
           \<subseteq> {GrantPrincipal ''FrontendOAI''}"
    using s(2) bucketReaders_final [OF sample_caller] by simp
  with s(1) show ?thesis by blast
qed

text \<open>
  C10, amended. Both buckets of the stack, the knowledge-base bucket and the frontend
  bucket, block all public access. Read access to the frontend bucket is granted to the
  origin-access identity of the distribution, by the one grant made on the bucket, and to
  the role of the CI pipeline, whose inline policy allows \<open>s3:GetObject\<close> on the bucket;
  to nobody else.
\<close>

theorem bucket_access:
  assumes "Caller0 rt = Some f"
  shows "\<exists>s. NewAppStack k rt i p = Inr s
     \<and> map (\<lambda>x. (fst x, bk_BlockPublicAccess (snd x))) (buckets (as_Stack s)) =
         [(''CodeRefactorBucket'', BlockPublicAccess_BLOCK_ALL),
          (''FrontendBucket'', BlockPublicAccess_BLOCK_ALL)]
     \<and> bucketReaders ''FrontendBucket'' (as_Stack s) =
         [GrantPrincipal ''FrontendOAI'', RoleGrantee ''GitHubActionsRole'']"
proof -
  obtain s where s: "NewAppStack k rt i p = Inr s"
    "as_Stack s = finalStack k rt (sp_Account p) (sp_Region p)"
    using final_of_run [OF assms] by metis
  show ?thesis
    using s buckets_final [OF assms] bucketReaders_final [OF assms] by simp
qed

theorem bucket_access_witness:
  "\<exists>s. NewAppStack sampleConstants sampleRuntime ''CodeRefactorInfra'' sampleProps = Inr s
     \<and> map (\<lambda>x. (fst x, bk_BlockPublicAccess (snd x))) (buckets (as_Stack s)) =
         [(''CodeRefactorBucket'', BlockPublicAccess_BLOCK_ALL),
          (''FrontendBucket'', BlockPublicAccess_BLOCK_ALL)]
     \<and> bucketReaders ''FrontendBucket'' (as_Stack s) =
         [GrantPrincipal ''FrontendOAI'', RoleGrantee ''GitHubActionsRole'']"
  using bucket_access [OF sample_caller] by blast

subsection \<open>The configuration stores\<close>

lemma collect_concat_map:
  "collect f (concat (map h xs)) = concat (map (\<lambda>x. collect f (h x)) xs)"
  by (induction xs) (simp_all add: collect_def)

lemma parameters_of_paramCalls:
  "collect call_parameters (paramCalls k m n) =
     (case m n of None \<Rightarrow> [] | Some v \<Rightarrow> [(n, v)])"
  by (simp add: paramCalls_def newParameter_def step_defs collect_def call_parameters_def
        split: option.splits)

lemma parameterStore_final:
  assumes "Caller0 rt = Some f"
  shows "parameterStore (finalStack k rt a g) =
    concat (map (\<lambda>n. case params0 a g k n of None \<Rightarrow> [] | Some v \<Rightarrow> [(n, v)])
              (rangeOrder rt))"
  using assms unfolding parameterStore_def collect_final collect_concat_map
    parameters_of_paramCalls
  by (simp add: part_defs collect_def call_parameters_def)

lemma secretStore_final:
  assumes "Caller0 rt = Some f"
  shows "secretStore (finalStack k rt a g) =
    [(''/code-refactor/backend/secrets'', ''rds_credentials_secret_arn'',
        [Token ''CodeRefactorDbSecret'' ''SecretArn'']),
     (''/code-refactor/backend/secrets'', ''bedrock_knowledge_base_role_arn'',
        [Token ''BedrockKnowledgeBaseRole'' ''RoleArn'']),
     (''/code-refactor/backend/secrets'', ''bedrock_agent_role_arn'',
        [Token ''BedrockAgentRole'' ''RoleArn'']),
     (''/code-refactor/backend/secrets'', ''cognito_client_id'',
        [Token ''CodeRefactorUserPoolClient'' ''UserPoolClientId'']),
     (''/code-refactor/frontend/secrets'', ''cognito_client_id'',
        [Token ''CodeRefactorUserPoolClient'' ''UserPoolClientId''])]"
proof -
  have "collect call_secrets (concat (map (paramCalls k m) order)) = []" for m order
    by (rule collect_params_nil) (simp_all add: call_secrets_def)
  then show ?thesis
    using assms unfolding secretStore_def collect_final
    by (simp add: part_defs collect_def call_secrets_def sprintf_v_def)
qed

lemma params0_in_list:
  assumes "params0 a g k n = Some v"
  shows "(n, v) \<in> set (paramList a g k)"
  using assms unfolding params0_def allParams_def paramList_def
  by (auto simp: map_add_Some_iff dest: map_of_SomeD)

lemma dom_params0: "dom (params0 a g k) = set sampleOrder"
proof (rule equalityI)
  show "dom (params0 a g k) \<subseteq> set sampleOrder"
    unfolding params0_def allParams_def
    by (simp add: dom_map_of_conv_image_fst backendParams_def frontendParams_def
          deploymentParams_def sampleOrder_def)
  show "set sampleOrder \<subseteq> dom (params0 a g k)"
    unfolding params0_def allParams_def
    by (simp add: dom_map_of_conv_image_fst backendParams_def frontendParams_def
          deploymentParams_def sampleOrder_def)
qed

lemma paramList_plain: "list_all (\<lambda>x. \<not> secretClassified (snd x)) (paramList a g k)"
  by (simp add: paramList_def backendParams_def frontendParams_def deploymentParams_def
        part_defs secretClassified_def)

lemma paramList_values:
  "set (map snd (paramList a g k)) \<inter>
     {[Token ''CodeRefactorDbSecret'' ''SecretArn''],
      [Token ''BedrockKnowledgeBaseRole'' ''RoleArn''],
      [Token ''BedrockAgentRole'' ''RoleArn''],
      [Token ''CodeRefactorUserPoolClient'' ''UserPoolClientId'']} = {}"
  by (simp add: paramList_def backendParams_def frontendParams_def deploymentParams_def
        part_defs)

lemma stored_in_list:
  assumes "x \<in> set (concat (map (\<lambda>n. case params0 a g k n of None \<Rightarrow> [] | Some v \<Rightarrow> [(n, v)])
                              order))"
  shows "x \<in> set (paramList a g k)"
proof -
  obtain n where "n \<in> set order"
    and "x \<in> set (case params0 a g k n of None \<Rightarrow> [] | Some v \<Rightarrow> [(n, v)])"
    using assms by auto
  then obtain v where "params0 a g k n = Some v" "x = (n, v)"
    by (cases "params0 a g k n") auto
  then show ?thesis using params0_in_list by blast
qed

lemma stored_names:
  assumes "set order \<subseteq> dom m"
  shows "map fst (concat (map (\<lambda>n. case m n of None \<Rightarrow> [] | Some v \<Rightarrow> [(n, v)]) order)) = order"
  using assms by (induction order) auto

lemma stored_at_key:
  assumes "distinct order" and "key \<in> set order" and "m key = Some v"
  shows "map snd (filter (\<lambda>x. fst x = key)
           (concat (map (\<lambda>n. case m n of None \<Rightarrow> [] | Some v \<Rightarrow> [(n, v)]) order))) = [v]"
  using assms
proof (induction order)
  case Nil
  then show ?case by simp
next
  case (Cons n ns)
  have none: "filter (\<lambda>x. fst x = key)
           (concat (map (\<lambda>n. case m n of None \<Rightarrow> [] | Some v \<Rightarrow> [(n, v)]) xs)) = []"
    if "key \<notin> set xs" for xs
    using that by (induction xs) (auto split: option.splits)
  show ?case
  proof (cases "n = key")
    case True
    then have "key \<notin> set ns" using Cons.prems(1) by simp
    with True Cons.prems(3) none [of ns] show ?thesis by simp
  next
    case False
    then have "key \<in> set ns" using Cons.prems(2) by simp
    with False Cons show ?thesis by (auto split: option.splits)
  qed
qed

lemma disjoint_sub: "A \<subseteq> B \<Longrightarrow> B \<inter> S = {} \<Longrightarrow> A \<inter> S = {}"
  by blast

lemma ball_sub: "A \<subseteq> B \<Longrightarrow> \<forall>x\<in>B. P x \<Longrightarrow> \<forall>x\<in>A. P x"
  by blast

text \<open>
  C2, as stated, fails: on the sample inputs the secret store holds a record that is
  not secret-valued in the sense of the specification, the ID of the user-pool client.
\<close>

theorem configuration_stores_counterexample:
  "\<exists>s. NewAppStack sampleConstants sampleRuntime ''CodeRefactorInfra'' sampleProps = Inr s
     \<and> \<not> storesSplitByClass (as_Stack s)"
proof -
  obtain s where s:
    "NewAppStack sampleConstants sampleRuntime ''CodeRefactorInfra'' sampleProps = Inr s"
    "as_Stack s = finalStack sampleConstants sampleRuntime (sp_Account sampleProps)
                    (sp_Region sampleProps)"
    by (rule sample_final)
  have "\<not> list_all (\<lambda>x. secretClassified (snd (snd x))) (secretStore (as_Stack s))"
    unfolding s(2) secretStore_final [OF sample_caller] by (simp add: secretClassified_def)
  then have "\<not> storesSplitByClass (as_Stack s)"
    by (simp add: storesSplitByClass_def)
  with s(1) show ?thesis by (intro exI [of _ s] conjI)
qed

text \<open>
  C2, amended. The secret store receives five fields: in the backend secret the ARN of
  the database credential, the ARNs of the two Bedrock roles and the ID of the user-pool
  client, and in the frontend secret the ID of the user-pool client again. The client ID
  is the only one of them that is not secret-valued. The parameter store receives one
  record for every key that the loop visits, none of them secret-valued, and no value
  written to one store is written to the other.
\<close>

theorem configuration_stores:
  assumes "Caller0 rt = Some f"
    and "goRange (params0 (sp_Account p) (sp_Region p) k) (rangeOrder rt)"
  shows "\<exists>s. NewAppStack k rt i p = Inr s
     \<and> secretStore (as_Stack s) =
        [(''/code-refactor/backend/secrets'', ''rds_credentials_secret_arn'',
            [Token ''CodeRefactorDbSecret'' ''SecretArn'']),
         (''/code-refactor/backend/secrets'', ''bedrock_knowledge_base_role_arn'',
            [Token ''BedrockKnowledgeBaseRole'' ''RoleArn'']),
         (''/code-refactor/backend/secrets'', ''bedrock_agent_role_arn'',
            [Token ''BedrockAgentRole'' ''RoleArn'']),
         (''/code-refactor/backend/secrets'', ''cognito_client_id'',
            [Token ''CodeRefactorUserPoolClient'' ''UserPoolClientId'']),
         (''/code-refactor/frontend/secrets'', ''cognito_client_id'',
            [Token ''CodeRefactorUserPoolClient'' ''UserPoolClientId''])]
     \<and> map (\<lambda>x. snd (snd x))
          (filter (\<lambda>x. \<not> secretClassified (snd (snd x))) (secretStore (as_Stack s))) =
        [[Token ''CodeRefactorUserPoolClient'' ''UserPoolClientId''],
         [Token ''CodeRefactorUserPoolClient'' ''UserPoolClientId'']]
     \<and> map fst (parameterStore (as_Stack s)) = rangeOrder rt
     \<and> list_all (\<lambda>x. \<not> secretClassified (snd x)) (parameterStore (as_Stack s))
     \<and> set (map snd (parameterStore (as_Stack s)))
          \<inter> set (map (\<lambda>x. snd (snd x)) (secretStore (as_Stack s))) = {}"
proof -
  let ?a = "sp_Account p" and ?g = "sp_Region p"
  obtain s where s: "NewAppStack k rt i p = Inr s" "as_Stack s = finalStack k rt ?a ?g"
    by (rule final_of_run [OF assms(1)])
  note sec = secretStore_final [OF assms(1), of k ?a ?g]
  note par = parameterStore_final [OF assms(1), of k ?a ?g]
  have 0: "secretStore (as_Stack s) =
        [(''/code-refactor/backend/secrets'', ''rds_credentials_secret_arn'',
            [Token ''CodeRefactorDbSecret'' ''SecretArn'']),
         (''/code-refactor/backend/secrets'', ''bedrock_knowledge_base_role_arn'',
            [Token ''BedrockKnowledgeBaseRole'' ''RoleArn'']),
         (''/code-refactor/backend/secrets'', ''bedrock_agent_role_arn'',
            [Token ''BedrockAgentRole'' ''RoleArn'']),
         (''/code-refactor/backend/secrets'', ''cognito_client_id'',
            [Token ''CodeRefactorUserPoolClient'' ''UserPoolClientId'']),
         (''/code-refactor/frontend/secrets'', ''cognito_client_id'',
            [Token ''CodeRefactorUserPoolClient'' ''UserPoolClientId''])]"
    unfolding s(2) by (rule sec)
  have 1: "map (\<lambda>x. snd (snd x))
          (filter (\<lambda>x. \<not> secretClassified (snd (snd x))) (secretStore (as_Stack s))) =
        [[Token ''CodeRefactorUserPoolClient'' ''UserPoolClientId''],
         [Token ''CodeRefactorUserPoolClient'' ''UserPoolClientId'']]"
    unfolding 0 by (simp add: secretClassified_def)
  have "set (rangeOrder rt) \<subseteq> dom (params0 ?a ?g k)"
    using assms(2) by (simp add: goRange_def)
  then have 2: "map fst (parameterStore (as_Stack s)) = rangeOrder rt"
    unfolding s(2) par by (rule stored_names)
  have sub: "set (parameterStore (as_Stack s)) \<subseteq> set (paramList ?a ?g k)"
    unfolding s(2) par by (rule subsetI) (rule stored_in_list)
  have 3: "list_all (\<lambda>x. \<not> secretClassified (snd x)) (parameterStore (as_Stack s))"
    using sub paramList_plain [of ?a ?g k] unfolding list_all_iff by (rule ball_sub)
  have subv: "set (map snd (parameterStore (as_Stack s))) \<subseteq> set (map snd (paramList ?a ?g k))"
    using sub unfolding set_map by (rule image_mono)
  have secv: "set (map (\<lambda>x. snd (snd x)) (secretStore (as_Stack s))) =
     {[Token ''CodeRefactorDbSecret'' ''SecretArn''],
      [Token ''BedrockKnowledgeBaseRole'' ''RoleArn''],
      [Token ''BedrockAgentRole'' ''RoleArn''],
      [Token ''CodeRefactorUserPoolClient'' ''UserPoolClientId'']}"
    unfolding 0 by simp
  have 4: "set (map snd (parameterStore (as_Stack s)))
          \<inter> set (map (\<lambda>x. snd (snd x)) (secretStore (as_Stack s))) = {}"
    unfolding secv using subv paramList_values [of ?a ?g k] by (rule disjoint_sub)
  show ?thesis
    by (intro exI [of _ s] conjI s(1) 0 1 2 3 4)
qed

lemma sample_order: "rangeOrder sampleRuntime = sampleOrder"
  by (simp add: sampleRuntime_def)

lemma distinct_sampleOrder: "distinct sampleOrder"
  by (simp add: sampleOrder_def)

lemma sample_range:
  "goRange (params0 (sp_Account sampleProps) (sp_Region sampleProps) sampleConstants)
     (rangeOrder sampleRuntime)"
  unfolding goRange_def dom_params0 sample_order
  using distinct_sampleOrder by simp

theorem configuration_stores_witness:
  "\<exists>s. NewAppStack sampleConstants sampleRuntime ''CodeRefactorInfra'' sampleProps = Inr s
     \<and> secretStore (as_Stack s) =
        [(''/code-refactor/backend/secrets'', ''rds_credentials_secret_arn'',
            [Token ''CodeRefactorDbSecret'' ''SecretArn'']),
         (''/code-refactor/backend/secrets'', ''bedrock_knowledge_base_role_arn'',
            [Token ''BedrockKnowledgeBaseRole'' ''RoleArn'']),
         (''/code-refactor/backend/secrets'', ''bedrock_agent_role_arn'',
            [Token ''BedrockAgentRole'' ''RoleArn'']),
         (''/code-refactor/backend/secrets'', ''cognito_client_id'',
            [Token ''CodeRefactorUserPoolClient'' ''UserPoolClientId'']),
         (''/code-refactor/frontend/secrets'', ''cognito_client_id'',
            [Token ''CodeRefactorUserPoolClient'' ''UserPoolClientId''])]
     \<and> map (\<lambda>x. snd (snd x))
          (filter (\<lambda>x. \<not> secretClassified (snd (snd x))) (secretStore (as_Stack s))) =
        [[Token ''CodeRefactorUserPoolClient'' ''UserPoolClientId''],
         [Token ''CodeRefactorUserPoolClient'' ''UserPoolClientId'']]
     \<and> map fst (parameterStore (as_Stack s)) = sampleOrder
     \<and> list_all (\<lambda>x. \<not> secretClassified (snd x)) (parameterStore (as_Stack s))
     \<and> set (map snd (parameterStore (as_Stack s)))
          \<inter> set (map (\<lambda>x. snd (snd x)) (secretStore (as_Stack s))) = {}"
  using configuration_stores [OF sample_caller sample_range, of "''CodeRefactorInfra''"]
  unfolding sample_order .

subsection \<open>The hosted login URL\<close>

lemma hosted_ui_key:
  "params0 a g k ''/code-refactor/frontend/cognito-hosted-ui-url'' =
     Some [Token ''CodeRefactorUserPoolDomain'' ''DomainName'']"
  by (simp add: params0_def allParams_def backendParams_def frontendParams_def
        deploymentParams_def cognito0_def map_add_def)

lemma strict_sublist_middle:
  assumes "pre \<noteq> []"
  shows "strict_sublist d (pre @ d @ post)"
proof -
  have "sublist d (pre @ d @ post)" by (rule sublist_appendI)
  moreover have "length (pre @ d @ post) \<noteq> length d" using assms by (cases pre) simp_all
  then have "d \<noteq> pre @ d @ post" by metis
  ultimately show ?thesis by (simp add: strict_sublist_def)
qed

lemma final_of_run_url:
  assumes "Caller0 rt = Some f"
  obtains s where "NewAppStack k rt i p = Inr s"
    and "as_Stack s = finalStack k rt (sp_Account p) (sp_Region p)"
    and "as_CognitoHostedUIURL s =
       [Lit ''https://''] @ cog_DomainURL cognito0 @ [Lit ''.auth.'']
         @ [Lit (sp_Region p)] @ [Lit ''.amazoncognito.com'']"
proof -
  from NewAppStack_returns [OF assms, of k i p]
  obtain s where "NewAppStack k rt i p = Inr s
           \<and> as_Stack s = finalStack k rt (sp_Account p) (sp_Region p)
           \<and> as_BucketName s = sto_Name (storage0 (sp_Account p) (sp_Region p))
           \<and> as_CognitoHostedUIURL s =
               [Lit ''https://''] @ cog_DomainURL cognito0 @ [Lit ''.auth.'']
                 @ [Lit (sp_Region p)] @ [Lit ''.amazoncognito.com'']" ..
  with that [of s] show thesis by simp
qed

text \<open>
  C9. On every run the parameter \<open>/code-refactor/frontend/cognito-hosted-ui-url\<close> holds the
  bare domain name of the user-pool domain, while the field \<open>CognitoHostedUIURL\<close> of the
  stack holds \<open>https://<domain>.auth.<region>.amazoncognito.com\<close>; whatever the provider
  resolves the domain name to, the parameter value is a substring of the field and differs
  from it.
\<close>

theorem hosted_ui_url_mismatch:
  assumes "Caller0 rt = Some f"
    and "goRange (params0 (sp_Account p) (sp_Region p) k) (rangeOrder rt)"
  shows "\<exists>s. NewAppStack k rt i p = Inr s
     \<and> map snd (filter (\<lambda>x. fst x = ''/code-refactor/frontend/cognito-hosted-ui-url'')
                   (parameterStore (as_Stack s)))
         = [[Token ''CodeRefactorUserPoolDomain'' ''DomainName'']]
     \<and> as_CognitoHostedUIURL s =
         [Lit ''https://'', Token ''CodeRefactorUserPoolDomain'' ''DomainName'',
          Lit ''.auth.'', Lit (sp_Region p), Lit ''.amazoncognito.com'']
     \<and> (\<forall>\<rho>. strict_sublist
               (resolve \<rho> [Token ''CodeRefactorUserPoolDomain'' ''DomainName''])
               (resolve \<rho> (as_CognitoHostedUIURL s)))"
proof -
  let ?a = "sp_Account p" and ?g = "sp_Region p"
  let ?key = "''/code-refactor/frontend/cognito-hosted-ui-url''"
  obtain s where s: "NewAppStack k rt i p = Inr s"
    "as_Stack s = finalStack k rt ?a ?g"
    "as_CognitoHostedUIURL s =
       [Lit ''https://''] @ cog_DomainURL cognito0 @ [Lit ''.auth.'']
         @ [Lit (sp_Region p)] @ [Lit ''.amazoncognito.com'']"
    by (rule final_of_run_url [OF assms(1)])
  note par = parameterStore_final [OF assms(1), of k ?a ?g]
  have d: "distinct (rangeOrder rt)" and e: "set (rangeOrder rt) = dom (params0 ?a ?g k)"
    using assms(2) by (simp_all add: goRange_def)
  have m: "?key \<in> set (rangeOrder rt)"
    unfolding e by (rule domI) (rule hosted_ui_key)
  have 1: "map snd (filter (\<lambda>x. fst x = ?key) (parameterStore (as_Stack s)))
         = [[Token ''CodeRefactorUserPoolDomain'' ''DomainName'']]"
    unfolding s(2) par by (rule stored_at_key [where m = "params0 ?a ?g k" and key = ?key, OF d m hosted_ui_key])
  have 2: "as_CognitoHostedUIURL s =
         [Lit ''https://'', Token ''CodeRefactorUserPoolDomain'' ''DomainName'',
          Lit ''.auth.'', Lit (sp_Region p), Lit ''.amazoncognito.com'']"
    unfolding s(3) by (simp add: cognito0_def)
  have 3: "\<forall>\<rho>. strict_sublist
               (resolve \<rho> [Token ''CodeRefactorUserPoolDomain'' ''DomainName''])
               (resolve \<rho> (as_CognitoHostedUIURL s))"
  proof
    fix \<rho>
    have r1: "resolve \<rho> [Token ''CodeRefactorUserPoolDomain'' ''DomainName'']
                = \<rho> ''CodeRefactorUserPoolDomain'' ''DomainName''"
      by (simp add: resolve_def)
    have r2: "resolve \<rho> [Lit ''https://'', Token ''CodeRefactorUserPoolDomain'' ''DomainName'',
                          Lit ''.auth.'', Lit (sp_Region p), Lit ''.amazoncognito.com'']
                = ''https://'' @ \<rho> ''CodeRefactorUserPoolDomain'' ''DomainName''
                    @ (''.auth.'' @ sp_Region p @ ''.amazoncognito.com'')"
      by (simp add: resolve_def)
    show "strict_sublist
               (resolve \<rho> [Token ''CodeRefactorUserPoolDomain'' ''DomainName''])
               (resolve \<rho> (as_CognitoHostedUIURL s))"
      unfolding 2 r1 r2 by (rule strict_sublist_middle) simp
  qed
  show ?thesis
    by (intro exI [of _ s] conjI s(1) 1 2 3)
qed

theorem hosted_ui_url_mismatch_witness:
  "\<exists>s. NewAppStack sampleConstants sampleRuntime ''CodeRefactorInfra'' sampleProps = Inr s
     \<and> map snd (filter (\<lambda>x. fst x = ''/code-refactor/frontend/cognito-hosted-ui-url'')
                   (parameterStore (as_Stack s)))
         = [[Token ''CodeRefactorUserPoolDomain'' ''DomainName'']]
     \<and> as_CognitoHostedUIURL s =
         [Lit ''https://'', Token ''CodeRefactorUserPoolDomain'' ''DomainName'',
          Lit ''.auth.'', Lit (sp_Region sampleProps), Lit ''.amazoncognito.com'']
     \<and> (\<forall>\<rho>. strict_sublist
               (resolve \<rho> [Token ''CodeRefactorUserPoolDomain'' ''DomainName''])
               (resolve \<rho> (as_CognitoHostedUIURL s)))"
  using hosted_ui_url_mismatch [OF sample_caller sample_range, of "''CodeRefactorInfra''"] .

subsection \<open>Resource names and their number\<close>

lemmas order_defs = collect_def declared_def uses_def statement_handles_def env_handles_def
  handles_of_def options_handles_def

lemma names_net: "resourceNames (netCalls k a g) = [''RefactorVpc'']"
  by (simp add: resourceNames_def part_defs order_defs)

lemma names_sto: "resourceNames (stoCalls k a g) = [''CodeRefactorBucket'']"
  by (simp add: resourceNames_def part_defs order_defs)

lemma names_db:
  assumes "Caller0 rt = Some f"
  shows "resourceNames (dbCalls k rt a g n) =
    [''CodeRefactorDbSecret'', RDSPostgresDatabaseName k, ''DbMigrationLambdaSG'',
     ''DbMigrationLambdaRole'', ''DbMigrationLambda'']"
  using assms by (simp add: resourceNames_def part_defs order_defs)

lemma names_cog:
  "resourceNames (cogCalls k a g) =
    [''CodeRefactorUserPool'', ''CodeRefactorUserPoolClient'', ''CodeRefactorUserPoolDomain'']"
  by (simp add: resourceNames_def part_defs order_defs)

lemma names_br:
  "resourceNames (brCalls k a g s d) = [''BedrockKnowledgeBaseRole'', ''BedrockAgentRole'']"
  by (simp add: resourceNames_def part_defs order_defs)

lemma names_cmp:
  "resourceNames (cmpCalls k a g n d s c b) =
    [''RefactorCluster'', ''FargateLogGroup'', ''RefactorTaskRole'', ''RefactorTaskDef'',
     ''RefactorEcrRepo'', ''RefactorContainer'']"
  by (simp add: resourceNames_def part_defs order_defs)

lemma names_gw:
  "resourceNames (gwCalls k a g n cm c d) =
    [''CodeRefactorALB'', ''CodeRefactorTargetGroup'', ''EcsServiceSG'',
     ''CodeRefactorService'', ''CodeRefactorListener'', ''CodeRefactorAPI'',
     ''CodeRefactorAuthorizer'',
     ''CodeRefactorAPI/{proxy+}'', ''CodeRefactorAPI/{proxy+} ANY'',
     ''CodeRefactorAPI/health'', ''CodeRefactorAPI/health GET'',
     ''CodeRefactorAPI/swagger'', ''CodeRefactorAPI/swagger GET'',
     ''CodeRefactorAPI/auth'', ''CodeRefactorAPI/auth GET'']"
  by (simp add: resourceNames_def part_defs order_defs)

lemma names_fe:
  "resourceNames (feCalls k a g) = [''FrontendBucket'', ''FrontendOAI'', ''FrontendDistribution'']"
  by (simp add: resourceNames_def part_defs order_defs)

lemma names_gh: "resourceNames (ghCalls k a g fe) = [''GitHubActionsRole'']"
  by (simp add: resourceNames_def part_defs order_defs)

lemma names_sec:
  "resourceNames (secCalls k a g d b c) = [''BackendSecrets'', ''FrontendSecrets'']"
  by (simp add: resourceNames_def part_defs order_defs)

lemma names_out:
  "resourceNames (outCalls a g s d b c ag fe cm) =
    [''ECRRepositoryURI'', ''CognitoUserPoolID'', ''CognitoUserPoolClientID'',
     ''APIGatewayURL'', ''CognitoHostedUIURL'', ''RDSPostgresCredentialsSecretARN'',
     ''RDSPostgresInstanceARN'', ''BucketName'', ''BedrockKnowledgeBaseRoleArn'',
     ''BedrockAgentRoleArn'', ''FrontendBucketName'', ''CloudFrontDistributionID'',
     ''CloudFrontDistributionDomainName'']"
  by (simp add: resourceNames_def part_defs order_defs)

lemmas names_parts = names_net names_sto names_db names_cog names_br names_cmp names_gw
  names_fe names_gh names_sec names_out

lemma resourceNames_append: "resourceNames (a @ b) = resourceNames a @ resourceNames b"
  by (simp add: resourceNames_def collect_append)

lemma names_one_param:
  assumes "m n = Some v"
  shows "length (resourceNames (paramCalls k m n)) = 1"
  using assms
  by (simp add: resourceNames_def paramCalls_def newParameter_def step_defs order_defs)

lemma length_names_params:
  assumes "set order \<subseteq> dom m"
  shows "length (resourceNames (concat (map (paramCalls k m) order))) = length order"
  using assms
proof (induction order)
  case Nil
  then show ?case by (simp add: resourceNames_def collect_def)
next
  case (Cons n ns)
  then obtain v where "m n = Some v" by auto
  with Cons names_one_param [of m n v k] show ?case
    by (simp add: resourceNames_append)
qed

lemma mset_names_params:
  "mset (resourceNames (concat (map (paramCalls k m) order)))
     = (\<Sum>n \<in># mset order. mset (resourceNames (paramCalls k m n)))"
  by (induction order) (simp_all add: resourceNames_append, simp add: resourceNames_def collect_def)

lemma goRange_same:
  assumes "goRange m xs" and "goRange m ys"
  shows "mset xs = mset ys"
  using assms by (simp add: goRange_def set_eq_iff_mset_eq_distinct [symmetric])

lemma goRange_length:
  assumes "goRange (params0 a g k) xs"
  shows "length xs = 19"
proof -
  have "distinct xs" "set xs = set sampleOrder"
    using assms by (simp_all add: goRange_def dom_params0)
  then have "length xs = card (set sampleOrder)" by (metis distinct_card)
  also have "\<dots> = length sampleOrder" by (rule distinct_card [OF distinct_sampleOrder])
  also have "\<dots> = 19" by (simp add: sampleOrder_def)
  finally show ?thesis .
qed

lemma names_final:
  assumes "Caller0 rt = Some f"
  shows "resourceNames (finalStack k rt a g) =
     (resourceNames (netCalls k a g @ stoCalls k a g)
      @ [''CodeRefactorDbSecret'', RDSPostgresDatabaseName k, ''DbMigrationLambdaSG'',
         ''DbMigrationLambdaRole'', ''DbMigrationLambda'']
      @ resourceNames (cogCalls k a g
         @ brCalls k a g (storage0 a g) (database0 k)
         @ cmpCalls k a g networking0 (database0 k) (storage0 a g) cognito0 bedrock0
         @ gwCalls k a g networking0 compute0 cognito0 (database0 k)
         @ feCalls k a g @ ghCalls k a g (frontend0 a g)))
     @ resourceNames (concat (map (paramCalls k (params0 a g k)) (rangeOrder rt)))
     @ resourceNames (secCalls k a g (database0 k) bedrock0 cognito0
         @ outCalls a g (storage0 a g) (database0 k) bedrock0 cognito0 apigateway0
             (frontend0 a g) compute1)"
  unfolding finalStack_def resourceNames_append names_db [OF assms] by simp

lemma length_names_final:
  assumes "Caller0 rt = Some f" and "goRange (params0 a g k) (rangeOrder rt)"
  shows "length (resourceNames (finalStack k rt a g)) = 71"
proof -
  have "set (rangeOrder rt) \<subseteq> dom (params0 a g k)"
    using assms(2) by (simp add: goRange_def)
  then have "length (resourceNames (concat (map (paramCalls k (params0 a g k)) (rangeOrder rt))))
     = 19"
    using goRange_length [OF assms(2)] by (simp add: length_names_params)
  then show ?thesis
    unfolding names_final [OF assms(1)] resourceNames_append names_parts
    by simp
qed

text \<open>
  C5. Two runs of \<open>NewAppStack\<close> with the same constants, stack id, account id and region
  both return a stack, whatever file the runtime reports and in whatever order \<open>range\<close>
  walks the parameter map in each run; the two stacks declare the same number of
  resources, 71, and the same names, each as often in one as in the other.
\<close>

theorem deterministic_names:
  assumes "Caller0 rt1 = Some f1" and "Caller0 rt2 = Some f2"
    and "goRange (params0 (sp_Account p) (sp_Region p) k) (rangeOrder rt1)"
    and "goRange (params0 (sp_Account p) (sp_Region p) k) (rangeOrder rt2)"
  shows "\<exists>s1 s2. NewAppStack k rt1 i p = Inr s1 \<and> NewAppStack k rt2 i p = Inr s2
     \<and> length (resourceNames (as_Stack s1)) = 71
     \<and> length (resourceNames (as_Stack s2)) = 71
     \<and> mset (resourceNames (as_Stack s1)) = mset (resourceNames (as_Stack s2))"
proof -
  let ?a = "sp_Account p" and ?g = "sp_Region p"
  obtain s1 where s1: "NewAppStack k rt1 i p = Inr s1" "as_Stack s1 = finalStack k rt1 ?a ?g"
    by (rule final_of_run [OF assms(1)])
  obtain s2 where s2: "NewAppStack k rt2 i p = Inr s2" "as_Stack s2 = finalStack k rt2 ?a ?g"
    by (rule final_of_run [OF assms(2)])
  have 1: "length (resourceNames (as_Stack s1)) = 71"
    unfolding s1(2) by (rule length_names_final [OF assms(1) assms(3)])
  have 2: "length (resourceNames (as_Stack s2)) = 71"
    unfolding s2(2) by (rule length_names_final [OF assms(2) assms(4)])
  have "mset (rangeOrder rt1) = mset (rangeOrder rt2)"
    by (rule goRange_same [OF assms(3) assms(4)])
  then have 3: "mset (resourceNames (as_Stack s1)) = mset (resourceNames (as_Stack s2))"
    unfolding s1(2) s2(2) names_final [OF assms(1)] names_final [OF assms(2)]
    by (simp add: mset_names_params)
  show ?thesis
    by (intro exI [of _ s1] exI [of _ s2] conjI s1(1) s2(1) 1 2 3)
qed

lemma sample_caller2: "Caller0 sampleRuntime2 = Some ''/home/ci/infra/stack/app_stack.go''"
  by (simp add: sampleRuntime2_def)

lemma sample_range2:
  "goRange (params0 (sp_Account sampleProps) (sp_Region sampleProps) sampleConstants)
     (rangeOrder sampleRuntime2)"
  unfolding goRange_def dom_params0
  using distinct_sampleOrder by (simp add: sampleRuntime2_def)

theorem deterministic_names_witness:
  "\<exists>s1 s2. NewAppStack sampleConstants sampleRuntime ''CodeRefactorInfra'' sampleProps = Inr s1
     \<and> NewAppStack sampleConstants sampleRuntime2 ''CodeRefactorInfra'' sampleProps = Inr s2
     \<and> length (resourceNames (as_Stack s1)) = 71
     \<and> length (resourceNames (as_Stack s2)) = 71
     \<and> mset (resourceNames (as_Stack s1)) = mset (resourceNames (as_Stack s2))"
  using deterministic_names [OF sample_caller sample_caller2 sample_range sample_range2] .

subsection \<open>Construction order\<close>

lemma inOrder_append:
  "inOrder seen (a @ b) = (inOrder seen a \<and> inOrder (seen @ resourceNames a) b)"
proof (induction a arbitrary: seen)
  case Nil
  then show ?case by (simp add: resourceNames_def collect_def)
next
  case (Cons c cs)
  then show ?case by (simp add: resourceNames_def collect_def)
qed

lemma concat_map_nil: "concat (map (\<lambda>x. []) xs) = []"
  by (induction xs) simp_all

lemmas use_defs = order_defs concat_map_nil comp_def

lemma order_net: "inOrder seen (netCalls k a g)"
  by (simp add: part_defs use_defs)

lemma order_sto: "inOrder seen (stoCalls k a g)"
  by (simp add: part_defs use_defs)

lemma order_db:
  assumes "Caller0 rt = Some f" and "''RefactorVpc'' \<in> set seen"
  shows "inOrder seen (dbCalls k rt a g networking0)"
  using assms by (simp add: part_defs use_defs)

lemma order_cog: "inOrder seen (cogCalls k a g)"
  by (simp add: part_defs use_defs)

lemma order_br:
  assumes "list_all (\<lambda>h. h \<in> set seen)
     [''CodeRefactorBucket'', ''CodeRefactorDbSecret'', RDSPostgresDatabaseName k]"
  shows "inOrder seen (brCalls k a g (storage0 a g) (database0 k))"
  using assms by (simp add: part_defs use_defs)

lemma order_cmp:
  assumes "list_all (\<lambda>h. h \<in> set seen)
     [''RefactorVpc'', ''CodeRefactorDbSecret'', RDSPostgresDatabaseName k,
      ''DbMigrationLambda'', ''BedrockKnowledgeBaseRole'', ''BedrockAgentRole'',
      ''CodeRefactorUserPool'', ''CodeRefactorUserPoolClient'']"
  shows "inOrder seen
     (cmpCalls k a g networking0 (database0 k) (storage0 a g) cognito0 bedrock0)"
  using assms by (simp add: part_defs use_defs)

lemma order_gw:
  assumes "list_all (\<lambda>h. h \<in> set seen)
     [''RefactorVpc'', ''RefactorCluster'', ''RefactorTaskDef'', RDSPostgresDatabaseName k,
      ''CodeRefactorUserPool'']"
  shows "inOrder seen (gwCalls k a g networking0 compute0 cognito0 (database0 k))"
  using assms by (simp add: part_defs use_defs)

lemma order_fe: "inOrder seen (feCalls k a g)"
  by (simp add: part_defs use_defs)

lemma order_gh:
  assumes "list_all (\<lambda>h. h \<in> set seen) [''FrontendBucket'', ''FrontendDistribution'']"
  shows "inOrder seen (ghCalls k a g (frontend0 a g))"
  using assms by (simp add: part_defs use_defs)

lemma order_sec:
  assumes "list_all (\<lambda>h. h \<in> set seen)
     [''CodeRefactorDbSecret'', ''BedrockKnowledgeBaseRole'', ''BedrockAgentRole'',
      ''CodeRefactorUserPoolClient'']"
  shows "inOrder seen (secCalls k a g (database0 k) bedrock0 cognito0)"
  using assms by (simp add: part_defs use_defs sprintf_v_def)

lemma order_out:
  assumes "list_all (\<lambda>h. h \<in> set seen)
     [''RefactorEcrRepo'', ''CodeRefactorUserPool'', ''CodeRefactorUserPoolClient'',
      ''CodeRefactorAPI'', ''CodeRefactorUserPoolDomain'', ''CodeRefactorDbSecret'',
      RDSPostgresDatabaseName k, ''BedrockKnowledgeBaseRole'', ''BedrockAgentRole'',
      ''FrontendDistribution'']"
  shows "inOrder seen
     (outCalls a g (storage0 a g) (database0 k) bedrock0 cognito0 apigateway0 (frontend0 a g)
        compute1)"
  using assms by (simp add: part_defs use_defs)

lemma inOrder_mono:
  assumes "set seen \<subseteq> set seen'" and "inOrder seen st"
  shows "inOrder seen' st"
  using assms
proof (induction st arbitrary: seen seen')
  case Nil
  then show ?case by simp
next
  case (Cons c cs)
  have "set (seen @ declared c) \<subseteq> set (seen' @ declared c)"
    using Cons.prems(1) by auto
  moreover have "inOrder (seen @ declared c) cs"
    using Cons.prems(2) by simp
  ultimately have "inOrder (seen' @ declared c) cs" by (rule Cons.IH)
  moreover have "list_all (\<lambda>h. h \<in> set seen') (uses c)"
    using Cons.prems by (auto simp: list_all_iff)
  ultimately show ?case by simp
qed

lemma order_one_param:
  assumes "\<And>v. m n = Some v \<Longrightarrow> set (handles_of v) \<subseteq> set seen"
  shows "inOrder seen (paramCalls k m n)"
proof (cases "m n")
  case None
  then show ?thesis by (simp add: paramCalls_def)
next
  case (Some v)
  then have "set (handles_of v) \<subseteq> set seen" by (rule assms)
  then have "list_all (\<lambda>h. h \<in> set seen) (handles_of v)"
    unfolding list_all_iff by auto
  with Some show ?thesis
    by (simp add: paramCalls_def newParameter_def step_defs declared_def uses_def)
qed

lemma order_params:
  assumes "\<And>n v. m n = Some v \<Longrightarrow> set (handles_of v) \<subseteq> set seen"
  shows "inOrder seen (concat (map (paramCalls k m) order))"
  using assms
proof (induction order arbitrary: seen)
  case Nil
  then show ?case by simp
next
  case (Cons n ns)
  have 1: "inOrder seen (paramCalls k m n)"
    by (rule order_one_param) (rule Cons.prems)
  have "set (handles_of v) \<subseteq> set (seen @ resourceNames (paramCalls k m n))"
    if "m x = Some v" for x v
    using Cons.prems [OF that] by auto
  then have 2: "inOrder (seen @ resourceNames (paramCalls k m n))
                  (concat (map (paramCalls k m) ns))"
    by (rule Cons.IH)
  from 1 2 show ?case by (simp add: inOrder_append)
qed

lemma paramList_handles:
  "list_all (\<lambda>x. list_all (\<lambda>h. h \<in> set
       [''CodeRefactorAPI'', ''CodeRefactorUserPool'', RDSPostgresDatabaseName k,
        ''RefactorEcrRepo'', ''RefactorCluster'', ''DbMigrationLambda'',
        ''CodeRefactorUserPoolDomain'', ''FrontendDistribution'']) (handles_of (snd x)))
     (paramList a g k)"
  by (simp add: paramList_def backendParams_def frontendParams_def deploymentParams_def
        part_defs handles_of_def)

lemma sub_trans_sets:
  "\<forall>h\<in>set xs. h \<in> set S \<Longrightarrow> \<forall>h\<in>set S. h \<in> set seen \<Longrightarrow> set xs \<subseteq> set seen"
  by blast

lemma params0_handles:
  assumes "params0 a g k n = Some v"
    and "list_all (\<lambda>h. h \<in> set seen)
       [''CodeRefactorAPI'', ''CodeRefactorUserPool'', RDSPostgresDatabaseName k,
        ''RefactorEcrRepo'', ''RefactorCluster'', ''DbMigrationLambda'',
        ''CodeRefactorUserPoolDomain'', ''FrontendDistribution'']"
  shows "set (handles_of v) \<subseteq> set seen"
proof -
  have mem: "(n, v) \<in> set (paramList a g k)" using assms(1) by (rule params0_in_list)
  have "\<forall>x\<in>set (paramList a g k). \<forall>h\<in>set (handles_of (snd x)). h \<in> set
       [''CodeRefactorAPI'', ''CodeRefactorUserPool'', RDSPostgresDatabaseName k,
        ''RefactorEcrRepo'', ''RefactorCluster'', ''DbMigrationLambda'',
        ''CodeRefactorUserPoolDomain'', ''FrontendDistribution'']"
    using paramList_handles [of k a g] unfolding list_all_iff .
  from bspec [OF this mem]
  have 1: "\<forall>h\<in>set (handles_of v). h \<in> set
       [''CodeRefactorAPI'', ''CodeRefactorUserPool'', RDSPostgresDatabaseName k,
        ''RefactorEcrRepo'', ''RefactorCluster'', ''DbMigrationLambda'',
        ''CodeRefactorUserPoolDomain'', ''FrontendDistribution'']"
    by (simp only: snd_conv)
  have 2: "\<forall>h\<in>set
       [''CodeRefactorAPI'', ''CodeRefactorUserPool'', RDSPostgresDatabaseName k,
        ''RefactorEcrRepo'', ''RefactorCluster'', ''DbMigrationLambda'',
        ''CodeRefactorUserPoolDomain'', ''FrontendDistribution'']. h \<in> set seen"
    using assms(2) unfolding list_all_iff .
  show ?thesis by (rule sub_trans_sets [OF 1 2])
qed

lemma order_params0:
  assumes "list_all (\<lambda>h. h \<in> set seen)
       [''CodeRefactorAPI'', ''CodeRefactorUserPool'', RDSPostgresDatabaseName k,
        ''RefactorEcrRepo'', ''RefactorCluster'', ''DbMigrationLambda'',
        ''CodeRefactorUserPoolDomain'', ''FrontendDistribution'']"
  shows "inOrder seen (concat (map (paramCalls k (params0 a g k)) order))"
proof (rule order_params)
  fix n v
  assume "params0 a g k n = Some v"
  then show "set (handles_of v) \<subseteq> set seen"
    using assms by (rule params0_handles)
qed

lemma order_final:
  assumes "Caller0 rt = Some f"
  shows "inOrder [] (finalStack k rt a g)"
  unfolding finalStack_def inOrder_append resourceNames_append names_parts names_db [OF assms]
  by (intro conjI order_net order_sto order_db [OF assms] order_cog order_br order_cmp
        order_gw order_fe order_gh order_sec order_out order_params0;
      simp)

lemma db_head:
  assumes "Caller0 rt = Some f"
  shows "\<exists>p0 t v pr post.
     dbCalls k rt a g networking0 =
       NewSecret ''CodeRefactorDbSecret'' p0 # Tags_Of_Add ''CodeRefactorDbSecret'' t v
         # NewDatabaseCluster (RDSPostgresDatabaseName k) pr # post
     \<and> dbc_Credentials pr = Credentials_FromSecret ''CodeRefactorDbSecret'' ''postgres''"
  using assms by (simp add: part_defs)

lemma cluster_after_secret:
  assumes "Caller0 rt = Some f"
  shows "\<exists>pre pr post.
     finalStack k rt a g = pre @ NewDatabaseCluster (RDSPostgresDatabaseName k) pr # post
     \<and> dbc_Credentials pr = Credentials_FromSecret ''CodeRefactorDbSecret'' ''postgres''
     \<and> resourceNames pre = [''RefactorVpc'', ''CodeRefactorBucket'', ''CodeRefactorDbSecret'']
     \<and> length pre = 7"
proof -
  obtain p0 t v pr post where db:
    "dbCalls k rt a g networking0 =
       NewSecret ''CodeRefactorDbSecret'' p0 # Tags_Of_Add ''CodeRefactorDbSecret'' t v
         # NewDatabaseCluster (RDSPostgresDatabaseName k) pr # post"
    and cr: "dbc_Credentials pr = Credentials_FromSecret ''CodeRefactorDbSecret'' ''postgres''"
    using db_head [OF assms, of k a g] by blast
  let ?pre = "netCalls k a g @ stoCalls k a g
     @ [NewSecret ''CodeRefactorDbSecret'' p0, Tags_Of_Add ''CodeRefactorDbSecret'' t v]"
  obtain rest where r:
    "finalStack k rt a g = netCalls k a g @ stoCalls k a g @ dbCalls k rt a g networking0 @ rest"
    by (simp add: finalStack_def)
  have 1: "finalStack k rt a g =
     ?pre @ NewDatabaseCluster (RDSPostgresDatabaseName k) pr # (post @ rest)"
    unfolding r db by simp
  have 2: "resourceNames ?pre = [''RefactorVpc'', ''CodeRefactorBucket'', ''CodeRefactorDbSecret'']"
    unfolding resourceNames_append names_net names_sto
    by (simp add: resourceNames_def collect_def declared_def)
  have 3: "length ?pre = 7"
    by (simp add: part_defs)
  from 1 cr 2 3 show ?thesis by blast
qed

text \<open>
  C7. A resource is declared by a call, and its cross-references are the handles that
  call uses; a call made later on a declared handle (a grant, an ingress rule, a tag)
  declares what it adds in its own place in the order. Every call of the single pass uses
  only handles declared by calls strictly before it, so no reference points forward and
  the references form no cycle. In particular the credential secret is declared before
  the call that declares the cluster, and that call takes its credentials from the
  secret.
\<close>

theorem construction_order:
  assumes "Caller0 rt = Some f"
  shows "\<exists>s. NewAppStack k rt i p = Inr s
     \<and> inOrder [] (as_Stack s)
     \<and> (\<exists>pre pr post.
           as_Stack s = pre @ NewDatabaseCluster (RDSPostgresDatabaseName k) pr # post
           \<and> dbc_Credentials pr = Credentials_FromSecret ''CodeRefactorDbSecret'' ''postgres''
           \<and> ''CodeRefactorDbSecret'' \<in> set (resourceNames pre))"
proof -
  let ?a = "sp_Account p" and ?g = "sp_Region p"
  obtain s where s: "NewAppStack k rt i p = Inr s" "as_Stack s = finalStack k rt ?a ?g"
    by (rule final_of_run [OF assms])
  have 1: "inOrder [] (as_Stack s)"
    unfolding s(2) by (rule order_final [OF assms])
  obtain pre pr post where
    "finalStack k rt ?a ?g = pre @ NewDatabaseCluster (RDSPostgresDatabaseName k) pr # post"
    "dbc_Credentials pr = Credentials_FromSecret ''CodeRefactorDbSecret'' ''postgres''"
    "resourceNames pre = [''RefactorVpc'', ''CodeRefactorBucket'', ''CodeRefactorDbSecret'']"
    using cluster_after_secret [OF assms, of k ?a ?g] by blast
  then have 2: "\<exists>pre pr post.
           as_Stack s = pre @ NewDatabaseCluster (RDSPostgresDatabaseName k) pr # post
           \<and> dbc_Credentials pr = Credentials_FromSecret ''CodeRefactorDbSecret'' ''postgres''
           \<and> ''CodeRefactorDbSecret'' \<in> set (resourceNames pre)"
    unfolding s(2) by (intro exI [of _ pre] exI [of _ pr] exI [of _ post]) simp
  show ?thesis
    by (intro exI [of _ s] conjI s(1) 1 2)
qed

theorem construction_order_witness:
  "\<exists>s. NewAppStack sampleConstants sampleRuntime ''CodeRefactorInfra'' sampleProps = Inr s
     \<and> inOrder [] (as_Stack s)
     \<and> (\<exists>pre pr post.
           as_Stack s =
             pre @ NewDatabaseCluster (RDSPostgresDatabaseName sampleConstants) pr # post
           \<and> dbc_Credentials pr = Credentials_FromSecret ''CodeRefactorDbSecret'' ''postgres''
           \<and> ''CodeRefactorDbSecret'' \<in> set (resourceNames pre))"
  using construction_order [OF sample_caller] .

end
